theory Spec2Isabelle
  imports Main "HOL-Library.Sublist"
begin

section \<open>JavaScript strings and values\<close>

text \<open>
  The link orchestrator of \<^verbatim>\<open>src/extension/utilities/npm-link.ts\<close> works on
  JavaScript strings. A string is modelled as a list of code units; the model covers the
  code units below 256 (ASCII and Latin-1), one \<^typ>\<open>char\<close> each. Strings holding
  higher code units are outside the model.

  \<^verbatim>\<open>String.prototype.toLowerCase\<close> maps \<open>A\<close>-\<open>Z\<close> (65-90) and the Latin-1
  capitals 192-222 except the multiplication sign 215 to the code unit 32 above, and
  leaves every other code unit below 256 unchanged.
\<close>

definition toLowerCase_char :: "char \<Rightarrow> char" where
  "toLowerCase_char c =
     (let n = (of_char c :: nat)
      in if (65 \<le> n \<and> n \<le> 90) \<or> (192 \<le> n \<and> n \<le> 222 \<and> n \<noteq> 215)
         then char_of (n + 32) else c)"

definition toLowerCase :: "string \<Rightarrow> string" where
  "toLowerCase s = map toLowerCase_char s"

text \<open>
  \<^verbatim>\<open>s.includes(sub)\<close>: \<open>sub\<close> occurs in \<open>s\<close> as a contiguous run of code units.
\<close>

definition includes_str :: "string \<Rightarrow> string \<Rightarrow> bool" where
  "includes_str s sub = sublist sub s"

text \<open>
  \<^verbatim>\<open>s.trim()\<close> removes white space and line terminators from both ends. Below 256
  these are TAB, LF, VT, FF, CR, SPACE and NO-BREAK SPACE.
\<close>

definition is_white_space :: "char \<Rightarrow> bool" where
  "is_white_space c = ((of_char c :: nat) \<in> {9, 10, 11, 12, 13, 32, 160})"

definition trim :: "string \<Rightarrow> string" where
  "trim s = rev (dropWhile is_white_space (rev (dropWhile is_white_space s)))"

text \<open>
  Values that are thrown, passed as a rejection reason or handed to a callback as its
  error argument. \<open>JErr (Error m)\<close> is an instance of \<^verbatim>\<open>Error\<close> (of any subclass)
  whose \<^verbatim>\<open>message\<close> is \<open>m\<close>; \<open>JStr s\<close> is a primitive string, as the tests of the
  repository pass in place of an error; \<open>JNull\<close> and \<open>JUndefined\<close> are the two values
  on which a property read throws.
\<close>

datatype js_error = Error (error_message: string)

datatype js_value = JErr js_error | JStr string | JNull | JUndefined

text \<open>The truthiness of a value, as \<^verbatim>\<open>if (error)\<close> tests it.\<close>

fun truthy :: "js_value \<Rightarrow> bool" where
  "truthy (JErr e) = True"
| "truthy (JStr s) = (s \<noteq> [])"
| "truthy JNull = False"
| "truthy JUndefined = False"

text \<open>
  \<^verbatim>\<open>error instanceof Error ? error.message : String(error)\<close> and
  \<^verbatim>\<open>error instanceof Error ? error : new Error(String(error))\<close>, the two expressions
  of the catch block of \<^verbatim>\<open>validatePackage\<close>.
\<close>

fun error_text :: "js_value \<Rightarrow> string" where
  "error_text (JErr e) = error_message e"
| "error_text (JStr s) = s"
| "error_text JNull = ''null''"
| "error_text JUndefined = ''undefined''"

fun to_error :: "js_value \<Rightarrow> js_value" where
  "to_error (JErr e) = JErr e"
| "to_error v = JErr (Error (error_text v))"

text \<open>
  \<^verbatim>\<open>errorValue.message\<close> without a test of the value, as the catch block of
  \<^verbatim>\<open>npmLink\<close> reads it: the message of an Error, \<^verbatim>\<open>undefined\<close> (here \<open>None\<close>) on a
  primitive string, and a TypeError on \<^verbatim>\<open>null\<close> and \<^verbatim>\<open>undefined\<close>. The texts of
  the TypeErrors are those of V8.
\<close>

fun message_property :: "js_value \<Rightarrow> js_value + string option" where
  "message_property (JErr e) = Inr (Some (error_message e))"
| "message_property (JStr s) = Inr None"
| "message_property JNull =
     Inl (JErr (Error ''Cannot read properties of null (reading 'message')''))"
| "message_property JUndefined =
     Inl (JErr (Error ''Cannot read properties of undefined (reading 'message')''))"

text \<open>A value that is a string or \<^verbatim>\<open>undefined\<close>, substituted into a template literal.\<close>

fun template :: "string option \<Rightarrow> string" where
  "template None = ''undefined''"
| "template (Some s) = s"

section \<open>Dependency types and command templates\<close>

text \<open>
  \<^verbatim>\<open>normalizeDependencyType(dependencyType: string = 'prod')\<close>. An omitted argument
  is \<open>None\<close> and takes the default of the parameter.
\<close>

definition normalizeDependencyType :: "string option \<Rightarrow> string" where
  "normalizeDependencyType dependencyType =
     (let lowerType = toLowerCase (case dependencyType of None \<Rightarrow> ''prod'' | Some d \<Rightarrow> d)
      in if lowerType = ''optionaldependencies'' \<or> lowerType = ''optional'' then ''optional''
         else if lowerType = ''peerdependencies'' \<or> lowerType = ''peer'' then ''peer''
         else if lowerType = ''devdependencies'' \<or> lowerType = ''dev'' then ''dev''
         else ''prod'')"

text \<open>
  \<^verbatim>\<open>packageManagerCommands\<close>, the object literal of command generators, as an
  association list of association lists in the order of the source.
\<close>

definition packageManagerCommands :: "(string \<times> (string \<times> (string \<Rightarrow> string)) list) list" where
  "packageManagerCommands =
    [(''npm'',
       [(''optional'', \<lambda>packagePath. ''npm install --save-optional '' @ packagePath),
        (''peer'', \<lambda>packagePath. ''npm install --save-peer '' @ packagePath),
        (''dev'', \<lambda>packagePath. ''npm install --save-dev '' @ packagePath),
        (''prod'', \<lambda>packagePath. ''npm install --save '' @ packagePath)]),
     (''pnpm'',
       [(''optional'', \<lambda>packagePath. ''pnpm add --save-optional '' @ packagePath),
        (''peer'', \<lambda>packagePath. ''pnpm add --save-peer '' @ packagePath),
        (''dev'', \<lambda>packagePath. ''pnpm add --save-dev '' @ packagePath),
        (''prod'', \<lambda>packagePath. ''pnpm add --save '' @ packagePath)]),
     (''bun'',
       [(''peer'', \<lambda>packagePath. ''bun install --peer '' @ packagePath),
        (''dev'', \<lambda>packagePath. ''bun install --dev '' @ packagePath),
        (''optional'', \<lambda>packagePath. ''bun install '' @ packagePath),
        (''prod'', \<lambda>packagePath. ''bun install '' @ packagePath)]),
     (''yarn'',
       [(''optional'', \<lambda>packagePath. ''yarn add --optional '' @ packagePath),
        (''peer'', \<lambda>packagePath. ''yarn add --peer '' @ packagePath),
        (''dev'', \<lambda>packagePath. ''yarn add --dev '' @ packagePath),
        (''prod'', \<lambda>packagePath. ''yarn add '' @ packagePath)])]"

text \<open>
  The object literal inherits from \<^verbatim>\<open>Object.prototype\<close>. The operator \<^verbatim>\<open>in\<close>
  follows the prototype chain, so \<^verbatim>\<open>key in packageManagerCommands\<close> holds for the
  four own keys and for every property name of \<^verbatim>\<open>Object.prototype\<close>, listed here as
  Node.js defines them.
\<close>

definition object_prototype_keys :: "string list" where
  "object_prototype_keys =
    [''constructor'', ''__defineGetter__'', ''__defineSetter__'', ''hasOwnProperty'',
     ''__lookupGetter__'', ''__lookupSetter__'', ''isPrototypeOf'', ''propertyIsEnumerable'',
     ''toString'', ''valueOf'', ''__proto__'', ''toLocaleString'']"

definition in_packageManagerCommands :: "string \<Rightarrow> bool" where
  "in_packageManagerCommands key =
     (key \<in> set (map fst packageManagerCommands) \<or> key \<in> set object_prototype_keys)"

text \<open>
  \<^verbatim>\<open>getAddCommand\<close>. The lookup \<^verbatim>\<open>packageManagerCommands[manager][normalizedType]\<close>
  finds a generator under an own key. Under an inherited key it reads a property named
  \<open>prod\<close>, \<open>dev\<close>, \<open>peer\<close> or \<open>optional\<close> of a built-in function (or of
  \<^verbatim>\<open>Object.prototype\<close> itself), which is \<^verbatim>\<open>undefined\<close>, and calling it throws a
  TypeError (the text is that of V8).
\<close>

definition getAddCommand :: "string \<Rightarrow> string \<Rightarrow> string \<Rightarrow> js_value + string" where
  "getAddCommand packageManager packagePath dependencyType =
     (let normalizedType = normalizeDependencyType (Some dependencyType);
          manager = (if \<not> in_packageManagerCommands packageManager then ''npm''
                     else packageManager)
      in case map_of packageManagerCommands manager of
           None \<Rightarrow>
             Inl (JErr (Error
               ''packageManagerCommands[manager][normalizedType] is not a function''))
         | Some row \<Rightarrow>
             (case map_of row normalizedType of
                None \<Rightarrow>
                  Inl (JErr (Error
                    ''packageManagerCommands[manager][normalizedType] is not a function''))
              | Some generator \<Rightarrow> Inr (generator packagePath)))"

text \<open>\<^verbatim>\<open>createLinkCommand\<close>, a switch on the manager with npm as its default.\<close>

definition createLinkCommand :: "string \<Rightarrow> string \<Rightarrow> string" where
  "createLinkCommand packageManager packagePath =
     (if packageManager = ''yarn'' then ''yarn link '' @ packagePath
      else if packageManager = ''pnpm'' then ''pnpm link '' @ packagePath
      else if packageManager = ''bun'' then ''bun link '' @ packagePath
      else ''npm link '' @ packagePath)"

text \<open>\<^verbatim>\<open>isWorkspaceError\<close>, on the Error it is given.\<close>

definition isWorkspaceError :: "js_error \<Rightarrow> bool" where
  "isWorkspaceError error =
     (let errorMessage = toLowerCase (error_message error)
      in includes_str errorMessage ''workspace'' \<or>
         includes_str errorMessage ''err_pnpm_workspace_pkg_not_found'')"

text \<open>
  The table of the specification (section 4.3), row by row as it is printed there: the
  link command of a manager, and the add command of a manager and a canonical
  dependency type. Outside the table both are the empty string.
\<close>

definition spec_link_command :: "string \<Rightarrow> string \<Rightarrow> string" where
  "spec_link_command manager path =
     (if manager = ''npm'' then ''npm link '' @ path
      else if manager = ''yarn'' then ''yarn link '' @ path
      else if manager = ''pnpm'' then ''pnpm link '' @ path
      else if manager = ''bun'' then ''bun link '' @ path
      else [])"

definition spec_add_command :: "string \<Rightarrow> string \<Rightarrow> string \<Rightarrow> string" where
  "spec_add_command manager canonical path =
     (if manager = ''npm'' then
        (if canonical = ''prod'' then ''npm install --save '' @ path
         else if canonical = ''dev'' then ''npm install --save-dev '' @ path
         else if canonical = ''peer'' then ''npm install --save-peer '' @ path
         else if canonical = ''optional'' then ''npm install --save-optional '' @ path
         else [])
      else if manager = ''yarn'' then
        (if canonical = ''prod'' then ''yarn add '' @ path
         else if canonical = ''dev'' then ''yarn add --dev '' @ path
         else if canonical = ''peer'' then ''yarn add --peer '' @ path
         else if canonical = ''optional'' then ''yarn add --optional '' @ path
         else [])
      else if manager = ''pnpm'' then
        (if canonical = ''prod'' then ''pnpm add --save '' @ path
         else if canonical = ''dev'' then ''pnpm add --save-dev '' @ path
         else if canonical = ''peer'' then ''pnpm add --save-peer '' @ path
         else if canonical = ''optional'' then ''pnpm add --save-optional '' @ path
         else [])
      else if manager = ''bun'' then
        (if canonical = ''prod'' then ''bun install '' @ path
         else if canonical = ''dev'' then ''bun install --dev '' @ path
         else if canonical = ''peer'' then ''bun install --peer '' @ path
         else if canonical = ''optional'' then ''bun install '' @ path
         else [])
      else [])"

text \<open>
  The row that serves a manager: its own for the four known managers, the one of npm
  for every other name. The first token of a command is what stands before its first
  space.
\<close>

definition known_or_npm :: "string \<Rightarrow> string" where
  "known_or_npm manager =
     (if manager \<in> {''npm'', ''yarn'', ''pnpm'', ''bun''} then manager else ''npm'')"

definition first_token :: "string \<Rightarrow> string" where
  "first_token command = takeWhile (\<lambda>c. c \<noteq> CHR '' '') command"

section \<open>The collaborators\<close>

text \<open>
  The orchestrator reaches the outside world through \<^verbatim>\<open>fs.stat\<close>,
  \<^verbatim>\<open>fs.readFile\<close>, \<^verbatim>\<open>path.join\<close>, \<^verbatim>\<open>JSON.parse\<close>, \<^verbatim>\<open>detect\<close> of
  \<^verbatim>\<open>package-manager-detector\<close> and \<^verbatim>\<open>cp.exec\<close>. None of them is code of the
  repository, so each is a field of the environment and a theorem that quantifies over
  the environment holds for every behaviour of them. A promise that rejects and a call
  that throws are \<open>Inl\<close> of the value; both surface at the \<^verbatim>\<open>await\<close> in the same way.
  Every call is taken to complete: a child process that never ends is not modelled. The
  logger writes to the output channel and is taken to return without throwing; its
  output is not part of any result and is left out.
\<close>

record stats =
  isDirectory :: bool
  isFile :: bool

text \<open>
  What \<^verbatim>\<open>validatePackage\<close> observes of the value \<^verbatim>\<open>JSON.parse\<close> returns: the
  property \<^verbatim>\<open>name\<close> is absent, a string, or another value. Of another value the
  code uses the truthiness and the conversion to a string in a template literal, which
  returns a text or throws: the object \<^verbatim>\<open>{"toString": 1}\<close> has no callable
  \<^verbatim>\<open>toString\<close>, and converting it throws a TypeError. The parsed value \<^verbatim>\<open>null\<close>
  is apart, since reading a property of it throws.
\<close>

datatype json_name =
  NameUndefined | NameString string | NameOther bool "js_value + string"

datatype package_json = ManifestNull | Manifest json_name

datatype detect_result = DetectResult (name: "string option")

text \<open>
  \<^verbatim>\<open>cp.exec\<close> either throws before it starts the command or calls back with
  \<^verbatim>\<open>(error, stdout, stderr)\<close>; a callback without error has \<open>JNull\<close> as its error.
\<close>

datatype exec_behaviour = ExecThrows js_value | ExecCallback js_value string string

text \<open>
  What \<^verbatim>\<open>cp.exec\<close> of Node.js throws is an Error object, raised when it validates its
  arguments. The test below holds of such a behaviour and of every callback.
\<close>

fun throws_only_errors :: "exec_behaviour \<Rightarrow> bool" where
  "throws_only_errors (ExecThrows (JErr thrown)) = True"
| "throws_only_errors (ExecThrows thrown) = False"
| "throws_only_errors (ExecCallback error stdout stderr) = True"

text \<open>
  \<open>exec\<close> takes the number of commands executed before, the command and the working
  directory, so that a second command may behave differently from the first.
  \<open>detect\<close> resolves with \<^verbatim>\<open>null\<close> (here \<open>None\<close>) or with a result whose name may
  be \<^verbatim>\<open>null\<close>.
\<close>

record env =
  fs_stat :: "string \<Rightarrow> js_value + stats"
  fs_readFile :: "string \<Rightarrow> js_value + string"
  path_join :: "string \<Rightarrow> string \<Rightarrow> string"
  json_parse :: "string \<Rightarrow> js_value + package_json"
  detect :: "string \<Rightarrow> js_value + detect_result option"
  exec :: "nat \<Rightarrow> string \<Rightarrow> string \<Rightarrow> exec_behaviour"

section \<open>The orchestrator\<close>

text \<open>\<^verbatim>\<open>detectPackageManager\<close>: \<^verbatim>\<open>result?.name ?? 'npm'\<close>, and npm when detection fails.\<close>

definition detectPackageManager :: "env \<Rightarrow> string \<Rightarrow> string" where
  "detectPackageManager e projectPath =
     (case detect e projectPath of
        Inl error \<Rightarrow> ''npm''
      | Inr None \<Rightarrow> ''npm''
      | Inr (Some result) \<Rightarrow> (case name result of None \<Rightarrow> ''npm'' | Some n \<Rightarrow> n))"

text \<open>
  \<^verbatim>\<open>executeCommand\<close>. The state is the list of the commands handed to \<^verbatim>\<open>cp.exec\<close> so
  far, each with its working directory; the call appends its own. The promise rejects
  with a new Error built from both output streams, or resolves with the trimmed standard
  output.
\<close>

definition executeCommand ::
  "env \<Rightarrow> (string \<times> string) list \<Rightarrow> string \<Rightarrow> string
     \<Rightarrow> (js_value + string) \<times> (string \<times> string) list" where
  "executeCommand e executed command cwd =
     (case exec e (length executed) command cwd of
        ExecThrows thrown \<Rightarrow> Inl thrown
      | ExecCallback error stdout stderr \<Rightarrow>
          if truthy error
          then Inl (JErr (Error (''Command execution failed: '' @ stdout @ ''\<newline>'' @ stderr)))
          else Inr (trim stdout),
      executed @ [(command, cwd)])"

text \<open>The interface \<^verbatim>\<open>LinkResult\<close>; an absent \<^verbatim>\<open>error\<close> is \<open>None\<close>.\<close>

record LinkResult =
  success :: bool
  message :: string
  error :: "js_value option"

text \<open>
  The \<^verbatim>\<open>try\<close> block of \<^verbatim>\<open>validatePackage\<close>: \<open>Inl\<close> is what the block throws,
  \<open>Inr\<close> what it returns (\<open>None\<close> for \<^verbatim>\<open>null\<close>).
\<close>

fun name_property :: "package_json \<Rightarrow> js_value + json_name" where
  "name_property ManifestNull =
     Inl (JErr (Error ''Cannot read properties of null (reading 'name')''))"
| "name_property (Manifest n) = Inr n"

fun name_truthy :: "json_name \<Rightarrow> bool" where
  "name_truthy NameUndefined = False"
| "name_truthy (NameString s) = (s \<noteq> [])"
| "name_truthy (NameOther t conversion) = t"

text \<open>The name in a template literal: \<open>Inl\<close> is what the conversion throws.\<close>

fun name_text :: "json_name \<Rightarrow> js_value + string" where
  "name_text NameUndefined = Inr ''undefined''"
| "name_text (NameString s) = Inr s"
| "name_text (NameOther t conversion) = conversion"

definition validatePackage_try :: "env \<Rightarrow> string \<Rightarrow> string \<Rightarrow> js_value + LinkResult option" where
  "validatePackage_try e packagePath packageName =
     (case fs_stat e packagePath of
        Inl thrown \<Rightarrow> Inl thrown
      | Inr packagePathStats \<Rightarrow>
          if \<not> isDirectory packagePathStats
          then Inr (Some \<lparr>success = False,
                 message = ''Package directory does not exist: '' @ packagePath,
                 error = None\<rparr>)
          else
            let packageJsonPath = path_join e packagePath ''package.json''
            in case fs_stat e packageJsonPath of
                 Inl thrown \<Rightarrow> Inl thrown
               | Inr packageJsonStats \<Rightarrow>
                   if \<not> isFile packageJsonStats
                   then Inr (Some \<lparr>success = False,
                          message = ''No package.json found in: '' @ packagePath,
                          error = None\<rparr>)
                   else
                     case fs_readFile e packageJsonPath of
                       Inl thrown \<Rightarrow> Inl thrown
                     | Inr packageJsonContent \<Rightarrow>
                         (case json_parse e packageJsonContent of
                            Inl thrown \<Rightarrow> Inl thrown
                          | Inr packageJson \<Rightarrow>
                              (case name_property packageJson of
                                 Inl thrown \<Rightarrow> Inl thrown
                               | Inr packageJsonName \<Rightarrow>
                                   if \<not> name_truthy packageJsonName
                                   then Inr (Some \<lparr>success = False,
                                          message = ''No package name found in package.json: ''
                                            @ packageJsonPath,
                                          error = None\<rparr>)
                                   else if packageJsonName \<noteq> NameString packageName
                                   then
                                     (case name_text packageJsonName of
                                        Inl thrown \<Rightarrow> Inl thrown
                                      | Inr found \<Rightarrow>
                                          Inr (Some \<lparr>success = False,
                                            message = ''Package name in package.json (''
                                              @ found
                                              @ '') does not match provided package name (''
                                              @ packageName @ '')'',
                                            error = None\<rparr>))
                                   else Inr None)))"

text \<open>\<^verbatim>\<open>validatePackage\<close>: the block above under its \<^verbatim>\<open>catch\<close>.\<close>

definition validatePackage :: "env \<Rightarrow> string \<Rightarrow> string \<Rightarrow> LinkResult option" where
  "validatePackage e packagePath packageName =
     (case validatePackage_try e packagePath packageName of
        Inr result \<Rightarrow> result
      | Inl thrown \<Rightarrow>
          Some \<lparr>success = False,
                message = ''Failed to create link: '' @ error_text thrown,
                error = Some (to_error thrown)\<rparr>)"

text \<open>
  \<^verbatim>\<open>executeLinkWithFallback\<close>, with the fields of its options as arguments. The guard
  of the \<^verbatim>\<open>catch\<close> block is \<^verbatim>\<open>linkError instanceof Error && isWorkspaceError(linkError)\<close>.
  An exception of \<^verbatim>\<open>getAddCommand\<close> or of the second command leaves the function.
\<close>

fun is_workspace_failure :: "js_value \<Rightarrow> bool" where
  "is_workspace_failure (JErr linkError) = isWorkspaceError linkError"
| "is_workspace_failure v = False"

definition executeLinkWithFallback ::
  "env \<Rightarrow> string \<Rightarrow> string \<Rightarrow> string \<Rightarrow> string \<Rightarrow> string
     \<Rightarrow> (js_value + LinkResult) \<times> (string \<times> string) list" where
  "executeLinkWithFallback e packageManager dependencyType packagePath projectPath packageName =
     (let linkCommand = createLinkCommand packageManager packagePath
      in case executeCommand e [] linkCommand projectPath of
           (Inr output, executed) \<Rightarrow>
             (Inr \<lparr>success = True,
                   message = ''Successfully linked '' @ packageName @ '' from '' @ packagePath
                     @ '' to project at '' @ projectPath @ ''\<newline>'' @ output,
                   error = None\<rparr>,
              executed)
         | (Inl linkError, executed) \<Rightarrow>
             if is_workspace_failure linkError
             then
               (case getAddCommand packageManager packagePath dependencyType of
                  Inl thrown \<Rightarrow> (Inl thrown, executed)
                | Inr addCommand \<Rightarrow>
                    (case executeCommand e executed addCommand projectPath of
                       (Inr output, executed') \<Rightarrow>
                         (Inr \<lparr>success = True,
                               message = ''Successfully added '' @ packageName @ '' from ''
                                 @ packagePath @ '' to project at '' @ projectPath
                                 @ '' (fallback from link)\<newline>'' @ output,
                               error = None\<rparr>,
                          executed')
                     | (Inl thrown, executed') \<Rightarrow> (Inl thrown, executed')))
             else (Inl linkError, executed))"

text \<open>The interface \<^verbatim>\<open>LinkOptions\<close>; an omitted \<^verbatim>\<open>dependencyType\<close> is \<open>None\<close>.\<close>

record LinkOptions =
  dependencyType :: "string option"
  packageName :: string
  packagePath :: string
  projectPath :: string

text \<open>
  \<^verbatim>\<open>npmLink\<close>. The result is what the promise settles with (\<open>Inl\<close> a rejection,
  \<open>Inr\<close> the LinkResult it resolves with) and the commands executed, in order. The
  \<^verbatim>\<open>catch\<close> block reads \<^verbatim>\<open>errorValue.message\<close>, which itself throws on
  \<^verbatim>\<open>null\<close> and \<^verbatim>\<open>undefined\<close>; nothing catches that.
\<close>

definition npmLink_catch :: "js_value \<Rightarrow> js_value + LinkResult" where
  "npmLink_catch errorValue =
     (case message_property errorValue of
        Inl thrown \<Rightarrow> Inl thrown
      | Inr m \<Rightarrow>
          Inr \<lparr>success = False,
               message = ''Failed to create link: '' @ template m,
               error = Some errorValue\<rparr>)"

definition npmLink :: "env \<Rightarrow> LinkOptions \<Rightarrow> (js_value + LinkResult) \<times> (string \<times> string) list" where
  "npmLink e options =
     (let dependencyType' = (case dependencyType options of None \<Rightarrow> ''prod'' | Some d \<Rightarrow> d)
      in case validatePackage e (packagePath options) (packageName options) of
           Some validationResult \<Rightarrow> (Inr validationResult, [])
         | None \<Rightarrow>
             let packageManager = detectPackageManager e (projectPath options)
             in case executeLinkWithFallback e packageManager dependencyType'
                       (packagePath options) (projectPath options) (packageName options) of
                  (Inr result, executed) \<Rightarrow> (Inr result, executed)
                | (Inl thrown, executed) \<Rightarrow> (npmLink_catch thrown, executed))"

section \<open>Concrete runs\<close>

text \<open>
  A family of environments around the end-to-end example of the specification: the
  package directory \<open>/pkg\<close> with the manifest \<open>/pkg/package.json\<close>, linked into the
  project \<open>/proj\<close> under the name \<open>foo\<close>. The arguments fix what \<^verbatim>\<open>fs.stat\<close>
  answers for the directory and for the manifest, what \<^verbatim>\<open>JSON.parse\<close> returns, what
  the detector answers, and how the first and the second command behave.
\<close>

definition manifest_content :: string where
  \<open>manifest_content = ''{"name":"foo"}''\<close>

definition enoent :: js_value where
  "enoent = JErr (Error ''ENOENT: no such file or directory'')"

definition a_directory :: "js_value + stats" where
  "a_directory = Inr \<lparr>isDirectory = True, isFile = False\<rparr>"

definition a_regular_file :: "js_value + stats" where
  "a_regular_file = Inr \<lparr>isDirectory = False, isFile = True\<rparr>"

definition scenario ::
  "(js_value + stats) \<Rightarrow> (js_value + stats) \<Rightarrow> (js_value + package_json)
     \<Rightarrow> (js_value + detect_result option) \<Rightarrow> exec_behaviour \<Rightarrow> exec_behaviour \<Rightarrow> env" where
  "scenario directory manifest parsed detected first second =
     \<lparr>fs_stat = (\<lambda>p. if p = ''/pkg'' then directory
                     else if p = ''/pkg/package.json'' then manifest
                     else Inl enoent),
      fs_readFile = (\<lambda>p. if p = ''/pkg/package.json'' then Inr manifest_content
                         else Inl enoent),
      path_join = (\<lambda>a b. a @ ''/'' @ b),
      json_parse = (\<lambda>content. parsed),
      detect = (\<lambda>cwd. detected),
      exec = (\<lambda>n command cwd. if n = 0 then first else second)\<rparr>"

text \<open>The environments in which the package is valid: the manifest names \<open>foo\<close>.\<close>

definition valid_package ::
  "(js_value + detect_result option) \<Rightarrow> exec_behaviour \<Rightarrow> exec_behaviour \<Rightarrow> env" where
  "valid_package detected first second =
     scenario a_directory a_regular_file (Inr (Manifest (NameString ''foo''))) detected
       first second"

definition detects :: "string \<Rightarrow> js_value + detect_result option" where
  "detects manager = Inr (Some (DetectResult (Some manager)))"

definition example_options :: LinkOptions where
  "example_options =
     \<lparr>dependencyType = None, packageName = ''foo'', packagePath = ''/pkg'',
      projectPath = ''/proj''\<rparr>"

text \<open>A command that fails: the callback gets an Error and the two output streams.\<close>

definition fails_with :: "string \<Rightarrow> string \<Rightarrow> exec_behaviour" where
  "fails_with stdout stderr = ExecCallback (JErr (Error ''Command failed'')) stdout stderr"

definition succeeds_with :: "string \<Rightarrow> exec_behaviour" where
  "succeeds_with stdout = ExecCallback JNull stdout []"

text \<open>
  The name of the manifest \<^verbatim>\<open>{"name": {"toString": 1}}\<close>: an object, hence truthy,
  whose conversion to a string throws.
\<close>

definition unconvertible_name :: json_name where
  "unconvertible_name =
     NameOther True (Inl (JErr (Error ''Cannot convert object to primitive value'')))"

text \<open>Runs that end in validation: npm is detected and every command would succeed.\<close>

definition validation_run ::
  "(js_value + stats) \<Rightarrow> (js_value + stats) \<Rightarrow> (js_value + package_json) \<Rightarrow> env" where
  "validation_run directory manifest parsed =
     scenario directory manifest parsed (detects ''npm'') (succeeds_with ''ok'')
       (succeeds_with ''ok'')"

section \<open>Lower-casing and substrings\<close>

lemma toLowerCase_char_idem: "toLowerCase_char (toLowerCase_char c) = toLowerCase_char c"
proof -
  let ?n = "of_char c :: nat"
  have small: "?n < 256" by simp
  show ?thesis
  proof (cases "(65 \<le> ?n \<and> ?n \<le> 90) \<or> (192 \<le> ?n \<and> ?n \<le> 222 \<and> ?n \<noteq> 215)")
    case True
    then have up: "(of_char (char_of (?n + 32)) :: nat) = ?n + 32"
      by auto
    from True have lc: "toLowerCase_char c = char_of (?n + 32)"
      by (simp add: toLowerCase_char_def Let_def)
    from True up have "toLowerCase_char (char_of (?n + 32)) = char_of (?n + 32)"
      unfolding toLowerCase_char_def Let_def by (simp only: up) auto
    with lc show ?thesis by simp
  next
    case False
    then have "toLowerCase_char c = c"
      by (auto simp add: toLowerCase_char_def Let_def)
    then show ?thesis by simp
  qed
qed

lemma toLowerCase_idem: "toLowerCase (toLowerCase s) = toLowerCase s"
  by (simp add: toLowerCase_def toLowerCase_char_idem)

lemma includes_str_trans:
  "includes_str s mid \<Longrightarrow> includes_str mid sub \<Longrightarrow> includes_str s sub"
  unfolding includes_str_def by (rule sublist_order.order.trans)

lemma token_includes_workspace:
  "includes_str ''err_pnpm_workspace_pkg_not_found'' ''workspace''"
  by (simp add: includes_str_def sublist_code prefix_code)

lemma toLowerCase_token:
  "toLowerCase ''ERR_PNPM_WORKSPACE_PKG_NOT_FOUND'' = ''err_pnpm_workspace_pkg_not_found''"
  by code_simp

lemma toLowerCase_literals:
  "toLowerCase ''prod'' = ''prod''" "toLowerCase ''dev'' = ''dev''"
  "toLowerCase ''peer'' = ''peer''" "toLowerCase ''optional'' = ''optional''"
  "toLowerCase ''devdependencies'' = ''devdependencies''"
  "toLowerCase ''peerdependencies'' = ''peerdependencies''"
  "toLowerCase ''optionaldependencies'' = ''optionaldependencies''"
  "toLowerCase ''DEV'' = ''dev''"
  "toLowerCase ''banana'' = ''banana''"
  by code_simp+

section \<open>Dependency-type normalization\<close>

lemma normalizeDependencyType_range:
  "normalizeDependencyType d \<in> {''prod'', ''dev'', ''peer'', ''optional''}"
  by (simp add: normalizeDependencyType_def Let_def)

text \<open>
  Claim C7, as stated, sends every input other than the six listed spellings to
  \<open>prod\<close>. The input \<open>DEV\<close> is none of the six, and the function lower-cases it
  before the switch and returns \<open>dev\<close>.
\<close>

theorem normalizeDependencyType_upper_case_not_prod:
  "''DEV'' \<notin> {''optional'', ''optionaldependencies'', ''peer'', ''peerdependencies'', ''dev'',
       ''devdependencies''}
   \<and> normalizeDependencyType (Some ''DEV'') \<noteq> ''prod''"
  by (simp add: normalizeDependencyType_def toLowerCase_literals)

text \<open>
  Claim C7, amended: \<^verbatim>\<open>normalizeDependencyType\<close> maps \<open>optional\<close> and
  \<open>optionaldependencies\<close> to \<open>optional\<close>, \<open>peer\<close> and \<open>peerdependencies\<close> to
  \<open>peer\<close>, \<open>dev\<close> and \<open>devdependencies\<close> to \<open>dev\<close>, an absent input to \<open>prod\<close>,
  and every input whose lower-case form is none of these six spellings to \<open>prod\<close>.
  Normalizing a normalized value returns it unchanged, and the range is exactly the four
  canonical variants.
\<close>

theorem normalizeDependencyType_spellings:
  "normalizeDependencyType (Some ''optional'') = ''optional''
   \<and> normalizeDependencyType (Some ''optionaldependencies'') = ''optional''
   \<and> normalizeDependencyType (Some ''peer'') = ''peer''
   \<and> normalizeDependencyType (Some ''peerdependencies'') = ''peer''
   \<and> normalizeDependencyType (Some ''dev'') = ''dev''
   \<and> normalizeDependencyType (Some ''devdependencies'') = ''dev''
   \<and> normalizeDependencyType None = ''prod''
   \<and> (\<forall>s. toLowerCase s \<notin> {''optional'', ''optionaldependencies'', ''peer'',
              ''peerdependencies'', ''dev'', ''devdependencies''}
          \<longrightarrow> normalizeDependencyType (Some s) = ''prod'')
   \<and> (\<forall>d. normalizeDependencyType (Some (normalizeDependencyType d))
          = normalizeDependencyType d)
   \<and> range normalizeDependencyType = {''prod'', ''dev'', ''peer'', ''optional''}"
proof -
  have fixed: "normalizeDependencyType (Some c) = c"
    if "c \<in> {''prod'', ''dev'', ''peer'', ''optional''}" for c
    using that by (auto simp add: normalizeDependencyType_def toLowerCase_literals)
  have idem: "normalizeDependencyType (Some (normalizeDependencyType d))
      = normalizeDependencyType d" for d
    by (rule fixed) (rule normalizeDependencyType_range)
  have "c \<in> range normalizeDependencyType"
    if "c \<in> {''prod'', ''dev'', ''peer'', ''optional''}" for c
    using fixed [OF that] by (metis rangeI)
  then have rng: "range normalizeDependencyType = {''prod'', ''dev'', ''peer'', ''optional''}"
    using normalizeDependencyType_range by blast
  have other: "normalizeDependencyType (Some s) = ''prod''"
    if "toLowerCase s \<notin> {''optional'', ''optionaldependencies'', ''peer'',
              ''peerdependencies'', ''dev'', ''devdependencies''}" for s
    using that by (simp add: normalizeDependencyType_def Let_def)
  have six: "normalizeDependencyType (Some ''optional'') = ''optional''"
    "normalizeDependencyType (Some ''optionaldependencies'') = ''optional''"
    "normalizeDependencyType (Some ''peer'') = ''peer''"
    "normalizeDependencyType (Some ''peerdependencies'') = ''peer''"
    "normalizeDependencyType (Some ''dev'') = ''dev''"
    "normalizeDependencyType (Some ''devdependencies'') = ''dev''"
    "normalizeDependencyType None = ''prod''"
    by (simp_all add: normalizeDependencyType_def toLowerCase_literals)
  from six other idem rng show ?thesis by blast
qed

text \<open>The amended claim C7 at the unrecognized spelling \<open>banana\<close>.\<close>

theorem normalizeDependencyType_spellings_witness:
  "toLowerCase ''banana'' \<notin> {''optional'', ''optionaldependencies'', ''peer'',
       ''peerdependencies'', ''dev'', ''devdependencies''}
   \<and> normalizeDependencyType (Some ''banana'') = ''prod''"
proof -
  have unrecognized: "toLowerCase ''banana'' \<notin> {''optional'', ''optionaldependencies'',
       ''peer'', ''peerdependencies'', ''dev'', ''devdependencies''}"
    by (simp add: toLowerCase_literals)
  with normalizeDependencyType_spellings show ?thesis by blast
qed

text \<open>
  Claim C9: normalization is case-insensitive. For every input string \<open>s\<close>,
  normalizing \<open>s\<close> and normalizing the lower-case form of \<open>s\<close> give the same variant.
\<close>

theorem normalizeDependencyType_case_insensitive:
  "normalizeDependencyType (Some s) = normalizeDependencyType (Some (toLowerCase s))"
  by (simp add: normalizeDependencyType_def toLowerCase_idem)

section \<open>The command selector\<close>

text \<open>The rows of the two mappings, and where the fallback of \<^verbatim>\<open>getAddCommand\<close> applies.\<close>

lemma createLinkCommand_rows:
  "createLinkCommand ''npm'' path = ''npm link '' @ path"
  "createLinkCommand ''yarn'' path = ''yarn link '' @ path"
  "createLinkCommand ''pnpm'' path = ''pnpm link '' @ path"
  "createLinkCommand ''bun'' path = ''bun link '' @ path"
  "manager \<notin> {''yarn'', ''pnpm'', ''bun''} \<Longrightarrow>
     createLinkCommand manager path = ''npm link '' @ path"
  by (simp_all add: createLinkCommand_def)

lemma getAddCommand_rows:
  "getAddCommand ''npm'' path dep =
     Inr (let t = normalizeDependencyType (Some dep)
          in if t = ''optional'' then ''npm install --save-optional '' @ path
             else if t = ''peer'' then ''npm install --save-peer '' @ path
             else if t = ''dev'' then ''npm install --save-dev '' @ path
             else ''npm install --save '' @ path)"
  "getAddCommand ''pnpm'' path dep =
     Inr (let t = normalizeDependencyType (Some dep)
          in if t = ''optional'' then ''pnpm add --save-optional '' @ path
             else if t = ''peer'' then ''pnpm add --save-peer '' @ path
             else if t = ''dev'' then ''pnpm add --save-dev '' @ path
             else ''pnpm add --save '' @ path)"
  "getAddCommand ''yarn'' path dep =
     Inr (let t = normalizeDependencyType (Some dep)
          in if t = ''optional'' then ''yarn add --optional '' @ path
             else if t = ''peer'' then ''yarn add --peer '' @ path
             else if t = ''dev'' then ''yarn add --dev '' @ path
             else ''yarn add '' @ path)"
  "getAddCommand ''bun'' path dep =
     Inr (let t = normalizeDependencyType (Some dep)
          in if t = ''peer'' then ''bun install --peer '' @ path
             else if t = ''dev'' then ''bun install --dev '' @ path
             else ''bun install '' @ path)"
  using normalizeDependencyType_range [of "Some dep"]
  by (auto simp add: getAddCommand_def in_packageManagerCommands_def
      packageManagerCommands_def Let_def)

lemma getAddCommand_fallback:
  "manager \<notin> set object_prototype_keys \<Longrightarrow>
   manager \<notin> {''npm'', ''pnpm'', ''bun'', ''yarn''} \<Longrightarrow>
   getAddCommand manager path dep = getAddCommand ''npm'' path dep"
  by (simp add: getAddCommand_def in_packageManagerCommands_def packageManagerCommands_def)

lemma getAddCommand_inherited:
  "manager \<in> set object_prototype_keys \<Longrightarrow>
   getAddCommand manager path dep =
     Inl (JErr (Error ''packageManagerCommands[manager][normalizedType] is not a function''))"
  by (auto simp add: getAddCommand_def in_packageManagerCommands_def packageManagerCommands_def
      object_prototype_keys_def Let_def)

text \<open>
  Claim C2: the command selector is total. For every manager string and every
  dependency-type string \<^verbatim>\<open>getAddCommand\<close> returns the add command that the table of
  the specification has for the manager and the normalized type, and
  \<^verbatim>\<open>createLinkCommand\<close> returns the link command of the table, whose first token is
  the name of the manager; a manager outside npm, yarn, pnpm and bun is served by the
  row of npm in both mappings, and no command is empty. In the row of bun the commands
  for \<open>prod\<close> and \<open>optional\<close> are the same. The manager strings are those that name
  no property of \<^verbatim>\<open>Object.prototype\<close>: the detector, whose answer is the only
  manager string the two functions are ever given, reports no such name.
\<close>

theorem command_selector_is_total:
  assumes "manager \<notin> set object_prototype_keys"
  shows "getAddCommand manager path dep =
           Inr (spec_add_command (known_or_npm manager)
                  (normalizeDependencyType (Some dep)) path)
     \<and> spec_add_command (known_or_npm manager) (normalizeDependencyType (Some dep)) path \<noteq> []
     \<and> createLinkCommand manager path = spec_link_command (known_or_npm manager) path
     \<and> first_token (createLinkCommand manager path) = known_or_npm manager
     \<and> spec_add_command ''bun'' ''prod'' path = spec_add_command ''bun'' ''optional'' path"
proof -
  have canonical: "normalizeDependencyType (Some dep) \<in> {''prod'', ''dev'', ''peer'', ''optional''}"
    by (rule normalizeDependencyType_range)
  have add: "getAddCommand manager path dep =
           Inr (spec_add_command (known_or_npm manager)
                  (normalizeDependencyType (Some dep)) path)"
  proof (cases "manager \<in> {''npm'', ''yarn'', ''pnpm'', ''bun''}")
    case True
    with canonical show ?thesis
      by (auto simp add: getAddCommand_rows known_or_npm_def spec_add_command_def Let_def)
  next
    case False
    with assms have "getAddCommand manager path dep = getAddCommand ''npm'' path dep"
      by (simp add: getAddCommand_fallback)
    with False canonical show ?thesis
      by (auto simp add: getAddCommand_rows known_or_npm_def spec_add_command_def Let_def)
  qed
  have filled: "spec_add_command (known_or_npm manager) (normalizeDependencyType (Some dep)) path
      \<noteq> []"
    using canonical by (auto simp add: known_or_npm_def spec_add_command_def)
  have link: "createLinkCommand manager path = spec_link_command (known_or_npm manager) path"
    by (auto simp add: createLinkCommand_def spec_link_command_def known_or_npm_def)
  have token: "first_token (createLinkCommand manager path) = known_or_npm manager"
    by (auto simp add: createLinkCommand_def known_or_npm_def first_token_def)
  have bun: "spec_add_command ''bun'' ''prod'' path = spec_add_command ''bun'' ''optional'' path"
    by (simp add: spec_add_command_def)
  from add filled link token bun show ?thesis by blast
qed

text \<open>
  Claim C2 at the manager \<open>unknown-manager\<close> and the dependency type \<open>dev\<close> of the
  repository's test of the fallback.
\<close>

theorem command_selector_is_total_witness:
  "''unknown-manager'' \<notin> set object_prototype_keys
   \<and> getAddCommand ''unknown-manager'' ''/path/to/package'' ''dev''
       = Inr ''npm install --save-dev /path/to/package''
   \<and> createLinkCommand ''unknown-manager'' ''/path/to/package'' = ''npm link /path/to/package''
   \<and> first_token (createLinkCommand ''unknown-manager'' ''/path/to/package'') = ''npm''"
proof -
  have no_property: "''unknown-manager'' \<notin> set object_prototype_keys"
    by (simp add: object_prototype_keys_def)
  have row: "known_or_npm ''unknown-manager'' = ''npm''"
    by (simp add: known_or_npm_def)
  have canonical: "normalizeDependencyType (Some ''dev'') = ''dev''"
    by (simp add: normalizeDependencyType_def toLowerCase_literals)
  from command_selector_is_total [OF no_property, of "''/path/to/package''" "''dev''"]
  show ?thesis
    by (simp add: no_property row canonical spec_add_command_def spec_link_command_def
        first_token_def)
qed

section \<open>The workspace-error predicate\<close>

text \<open>
  Claim C10: \<^verbatim>\<open>isWorkspaceError\<close> is the single check that the lower-cased message
  contains \<open>workspace\<close>. The token of the second disjunct contains \<open>workspace\<close>
  itself, so the second disjunct never changes the outcome.
\<close>

theorem isWorkspaceError_single_check:
  "isWorkspaceError err = includes_str (toLowerCase (error_message err)) ''workspace''"
  unfolding isWorkspaceError_def Let_def
  using includes_str_trans [OF _ token_includes_workspace] by blast

section \<open>Running commands\<close>

lemma thrown_by_exec_is_an_error:
  "throws_only_errors (ExecThrows thrown) \<Longrightarrow> \<exists>err. thrown = JErr err"
  by (cases thrown) simp_all

lemma executeCommand_rejects_with_error:
  assumes "executeCommand e executed command cwd = (Inl thrown, executed')"
    and "throws_only_errors (exec e (length executed) command cwd)"
  shows "\<exists>err. thrown = JErr err"
  using assms
  by (auto simp add: executeCommand_def split: exec_behaviour.splits if_splits
      dest: thrown_by_exec_is_an_error)

lemma getAddCommand_throws_Error:
  "getAddCommand packageManager path dep = Inl thrown \<Longrightarrow> \<exists>err. thrown = JErr err"
  by (auto simp add: getAddCommand_def Let_def split: option.splits)

lemma executeLinkWithFallback_rejects_with_error:
  assumes "executeLinkWithFallback e packageManager dep path project pname
             = (Inl thrown, executed)"
    and "\<forall>n command cwd. throws_only_errors (exec e n command cwd)"
  shows "\<exists>err. thrown = JErr err"
  using assms
  unfolding executeLinkWithFallback_def Let_def
  by (auto split: prod.splits sum.splits if_splits
      dest: executeCommand_rejects_with_error getAddCommand_throws_Error)

lemma npmLink_catch_error:
  "npmLink_catch (JErr err) =
     Inr \<lparr>success = False,
          message = ''Failed to create link: '' @ error_message err,
          error = Some (JErr err)\<rparr>"
  by (simp add: npmLink_catch_def)

text \<open>Facts about the concrete runs.\<close>

lemma valid_package_validates:
  "validatePackage (valid_package d first second) ''/pkg'' ''foo'' = None"
  by (simp add: validatePackage_def validatePackage_try_def valid_package_def scenario_def
      a_directory_def a_regular_file_def)

lemma valid_package_fields:
  "exec (valid_package d first second) n command cwd = (if n = 0 then first else second)"
  "detect (valid_package d first second) cwd = d"
  by (simp_all add: valid_package_def scenario_def)

lemma example_options_fields:
  "packagePath example_options = ''/pkg''" "packageName example_options = ''foo''"
  "projectPath example_options = ''/proj''" "dependencyType example_options = None"
  by (simp_all add: example_options_def)

lemma classified_messages:
  "\<not> isWorkspaceError (Error ''Command execution failed: \<newline>Some other error'')"
  "isWorkspaceError (Error ''Command execution failed: \<newline>ERR_PNPM_WORKSPACE_PKG_NOT_FOUND'')"
  "isWorkspaceError
     (Error ''Command execution failed: Scope: all 3 workspace projects\<newline>ERR_PNPM_NO_GLOBAL_BIN_DIR'')"
  by code_simp+

lemma other_error_run:
  "executeLinkWithFallback
     (valid_package (detects ''pnpm'') (fails_with [] ''Some other error'') second)
     ''pnpm'' ''prod'' ''/pkg'' ''/proj'' ''foo'' =
   (Inl (JErr (Error ''Command execution failed: \<newline>Some other error'')),
    [(''pnpm link /pkg'', ''/proj'')])"
  by (simp add: executeLinkWithFallback_def executeCommand_def valid_package_fields
      fails_with_def createLinkCommand_def classified_messages)

section \<open>The public entry point\<close>

text \<open>
  Claim C1: for every LinkOptions input and every behaviour of the filesystem, the
  detector and the executor, \<^verbatim>\<open>npmLink\<close> returns a LinkResult and never rejects. The
  filesystem and the detector may throw or reject with any value, and a command may
  fail in any way; what \<^verbatim>\<open>cp.exec\<close> itself throws is an Error object, as in Node.js.
  Every exception that reaches the outer \<^verbatim>\<open>catch\<close> is an Error and is converted into
  a result with \<open>success = False\<close>, the message \<open>Failed to create link: \<close> followed by
  the message of the error, and the error attached; an exception inside
  \<^verbatim>\<open>validatePackage\<close> is converted into the same shape by its own \<^verbatim>\<open>catch\<close>, and
  no command is executed.
\<close>

theorem npmLink_returns_a_result:
  "(\<forall>n command cwd. throws_only_errors (exec e n command cwd))
   \<Longrightarrow> (\<exists>result. fst (npmLink e options) = Inr result)
     \<and> (\<forall>thrown executed.
           validatePackage e (packagePath options) (packageName options) = None
           \<and> executeLinkWithFallback e (detectPackageManager e (projectPath options))
                (case dependencyType options of None \<Rightarrow> ''prod'' | Some d \<Rightarrow> d)
                (packagePath options) (projectPath options) (packageName options)
              = (Inl thrown, executed)
           \<longrightarrow> (\<exists>err. thrown = JErr err
                 \<and> npmLink e options =
                     (Inr \<lparr>success = False,
                           message = ''Failed to create link: '' @ error_message err,
                           error = Some (JErr err)\<rparr>,
                      executed)))
     \<and> (\<forall>thrown.
           validatePackage_try e (packagePath options) (packageName options) = Inl thrown
           \<longrightarrow> npmLink e options =
                 (Inr \<lparr>success = False,
                       message = ''Failed to create link: '' @ error_text thrown,
                       error = Some (to_error thrown)\<rparr>,
                  []))"
proof -
  assume only_errors: "\<forall>n command cwd. throws_only_errors (exec e n command cwd)"
  have caught: "\<exists>err. thrown = JErr err \<and> npmLink_catch thrown =
     Inr \<lparr>success = False,
          message = ''Failed to create link: '' @ error_message err,
          error = Some (JErr err)\<rparr>"
    if "executeLinkWithFallback e packageManager dep path project pname = (Inl thrown, executed)"
    for packageManager dep path project pname thrown executed
    using executeLinkWithFallback_rejects_with_error [OF that only_errors]
    by (auto simp add: npmLink_catch_error)
  have returns: "\<exists>result. fst (npmLink e options) = Inr result"
  proof (cases "validatePackage e (packagePath options) (packageName options)")
    case (Some validationResult)
    then show ?thesis by (simp add: npmLink_def)
  next
    case None
    obtain outcome executed where run:
      "executeLinkWithFallback e (detectPackageManager e (projectPath options))
         (case dependencyType options of None \<Rightarrow> ''prod'' | Some d \<Rightarrow> d)
         (packagePath options) (projectPath options) (packageName options)
       = (outcome, executed)"
      by (cases "executeLinkWithFallback e (detectPackageManager e (projectPath options))
         (case dependencyType options of None \<Rightarrow> ''prod'' | Some d \<Rightarrow> d)
         (packagePath options) (projectPath options) (packageName options)") blast
    show ?thesis
    proof (cases outcome)
      case (Inr result)
      with None run show ?thesis by (simp add: npmLink_def Let_def)
    next
      case (Inl thrown)
      with run have rejected:
        "executeLinkWithFallback e (detectPackageManager e (projectPath options))
           (case dependencyType options of None \<Rightarrow> ''prod'' | Some d \<Rightarrow> d)
           (packagePath options) (projectPath options) (packageName options)
         = (Inl thrown, executed)"
        by simp
      from caught [OF rejected] obtain result where "npmLink_catch thrown = Inr result"
        by blast
      with None rejected show ?thesis by (simp add: npmLink_def Let_def)
    qed
  qed
  have shape: "\<exists>err. thrown = JErr err
                 \<and> npmLink e options =
                     (Inr \<lparr>success = False,
                           message = ''Failed to create link: '' @ error_message err,
                           error = Some (JErr err)\<rparr>,
                      executed)"
    if "validatePackage e (packagePath options) (packageName options) = None"
      and "executeLinkWithFallback e (detectPackageManager e (projectPath options))
                (case dependencyType options of None \<Rightarrow> ''prod'' | Some d \<Rightarrow> d)
                (packagePath options) (projectPath options) (packageName options)
              = (Inl thrown, executed)"
    for thrown executed
  proof -
    from caught [OF that(2)] obtain err where err: "thrown = JErr err"
      and converted: "npmLink_catch thrown =
         Inr \<lparr>success = False,
              message = ''Failed to create link: '' @ error_message err,
              error = Some (JErr err)\<rparr>"
      by blast
    from that converted have "npmLink e options =
        (Inr \<lparr>success = False,
              message = ''Failed to create link: '' @ error_message err,
              error = Some (JErr err)\<rparr>,
         executed)"
      by (simp add: npmLink_def Let_def)
    with err show ?thesis by blast
  qed
  have validation: "npmLink e options =
                 (Inr \<lparr>success = False,
                       message = ''Failed to create link: '' @ error_text thrown,
                       error = Some (to_error thrown)\<rparr>,
                  [])"
    if "validatePackage_try e (packagePath options) (packageName options) = Inl thrown"
    for thrown
    using that by (simp add: npmLink_def validatePackage_def)
  from returns shape validation show ?thesis by blast
qed

text \<open>
  Claim C1 at a valid package whose link command fails with an unrelated error, the
  run of the repository's test of a command failure.
\<close>

theorem npmLink_returns_a_result_witness:
  "(\<forall>n command cwd.
      throws_only_errors
        (exec (valid_package (detects ''pnpm'') (fails_with [] ''Some other error'')
                (succeeds_with ''ok'')) n command cwd))
   \<and> npmLink (valid_package (detects ''pnpm'') (fails_with [] ''Some other error'')
              (succeeds_with ''ok'')) example_options =
       (Inr \<lparr>success = False,
             message = ''Failed to create link: Command execution failed: \<newline>Some other error'',
             error = Some (JErr (Error ''Command execution failed: \<newline>Some other error''))\<rparr>,
        [(''pnpm link /pkg'', ''/proj'')])"
proof -
  let ?e = "valid_package (detects ''pnpm'') (fails_with [] ''Some other error'')
              (succeeds_with ''ok'')"
  have only_errors: "\<forall>n command cwd. throws_only_errors (exec ?e n command cwd)"
    by (simp add: valid_package_fields fails_with_def succeeds_with_def)
  have valid: "validatePackage ?e (packagePath example_options) (packageName example_options)
      = None"
    by (simp add: example_options_fields valid_package_validates)
  have run: "executeLinkWithFallback ?e (detectPackageManager ?e (projectPath example_options))
      (case dependencyType example_options of None \<Rightarrow> ''prod'' | Some d \<Rightarrow> d)
      (packagePath example_options) (projectPath example_options) (packageName example_options)
    = (Inl (JErr (Error ''Command execution failed: \<newline>Some other error'')),
       [(''pnpm link /pkg'', ''/proj'')])"
    by (simp add: example_options_fields detectPackageManager_def valid_package_fields
        detects_def other_error_run [unfolded detects_def])
  from npmLink_returns_a_result [OF only_errors, of example_options] valid run
  have "\<exists>err. JErr (Error ''Command execution failed: \<newline>Some other error'') = JErr err
      \<and> npmLink ?e example_options =
       (Inr \<lparr>success = False,
             message = ''Failed to create link: '' @ error_message err,
             error = Some (JErr err)\<rparr>,
        [(''pnpm link /pkg'', ''/proj'')])"
    by blast
  then have "npmLink ?e example_options =
       (Inr \<lparr>success = False,
             message = ''Failed to create link: Command execution failed: \<newline>Some other error'',
             error = Some (JErr (Error ''Command execution failed: \<newline>Some other error''))\<rparr>,
        [(''pnpm link /pkg'', ''/proj'')])"
    by auto
  with only_errors show ?thesis by simp
qed

section \<open>Link, classification and fallback\<close>

lemma npmLink_valid:
  "validatePackage e (packagePath options) (packageName options) = None \<Longrightarrow>
   npmLink e options =
     (case executeLinkWithFallback e (detectPackageManager e (projectPath options))
             (case dependencyType options of None \<Rightarrow> ''prod'' | Some d \<Rightarrow> d)
             (packagePath options) (projectPath options) (packageName options) of
        (Inr result, executed) \<Rightarrow> (Inr result, executed)
      | (Inl thrown, executed) \<Rightarrow> (npmLink_catch thrown, executed))"
  by (simp add: npmLink_def Let_def)

lemma link_succeeds:
  assumes "exec e 0 (createLinkCommand manager path) project = ExecCallback err stdout stderr"
    and "\<not> truthy err"
  shows "executeLinkWithFallback e manager dep path project pname =
     (Inr \<lparr>success = True,
           message = ''Successfully linked '' @ pname @ '' from '' @ path
             @ '' to project at '' @ project @ ''\<newline>'' @ trim stdout,
           error = None\<rparr>,
      [(createLinkCommand manager path, project)])"
  using assms by (simp add: executeLinkWithFallback_def executeCommand_def)

lemma link_fails_other:
  assumes "exec e 0 (createLinkCommand manager path) project = ExecCallback err stdout stderr"
    and "truthy err"
    and "\<not> isWorkspaceError (Error (''Command execution failed: '' @ stdout @ ''\<newline>'' @ stderr))"
  shows "executeLinkWithFallback e manager dep path project pname =
     (Inl (JErr (Error (''Command execution failed: '' @ stdout @ ''\<newline>'' @ stderr))),
      [(createLinkCommand manager path, project)])"
  using assms by (simp add: executeLinkWithFallback_def executeCommand_def)

lemma link_fails_workspace:
  assumes "exec e 0 (createLinkCommand manager path) project = ExecCallback err stdout stderr"
    and "truthy err"
    and "isWorkspaceError (Error (''Command execution failed: '' @ stdout @ ''\<newline>'' @ stderr))"
  shows "executeLinkWithFallback e manager dep path project pname =
     (case getAddCommand manager path dep of
        Inl thrown \<Rightarrow> (Inl thrown, [(createLinkCommand manager path, project)])
      | Inr addCommand \<Rightarrow>
          (case exec e 1 addCommand project of
             ExecThrows thrown \<Rightarrow> Inl thrown
           | ExecCallback err' stdout' stderr' \<Rightarrow>
               if truthy err'
               then Inl (JErr (Error (''Command execution failed: '' @ stdout' @ ''\<newline>''
                      @ stderr')))
               else Inr \<lparr>success = True,
                      message = ''Successfully added '' @ pname @ '' from '' @ path
                        @ '' to project at '' @ project @ '' (fallback from link)\<newline>''
                        @ trim stdout',
                      error = None\<rparr>,
           [(createLinkCommand manager path, project), (addCommand, project)]))"
  using assms
  by (simp add: executeLinkWithFallback_def executeCommand_def
      split: sum.splits exec_behaviour.splits)

lemma isWorkspaceError_text:
  "isWorkspaceError (Error text) =
     (includes_str (toLowerCase text) ''workspace'' \<or>
      includes_str (toLowerCase text) (toLowerCase ''ERR_PNPM_WORKSPACE_PKG_NOT_FOUND''))"
  by (simp add: isWorkspaceError_def Let_def toLowerCase_token)

lemma trim_examples:
  "trim ''ok'' = ''ok''" "trim ''ok\<newline>'' = ''ok''"
  "trim ''added 1 package\<newline>'' = ''added 1 package''"
  by code_simp+

lemma detected_manager:
  "detectPackageManager (valid_package (detects manager) first second) cwd = manager"
  by (simp add: detectPackageManager_def valid_package_fields detects_def)

lemma getAddCommand_examples:
  "getAddCommand ''pnpm'' ''/pkg'' ''prod'' = Inr ''pnpm add --save /pkg''"
  by (simp add: getAddCommand_def in_packageManagerCommands_def object_prototype_keys_def
      packageManagerCommands_def normalizeDependencyType_def toLowerCase_literals)

lemma lower_case_examples:
  "\<not> includes_str (toLowerCase ''ERR_PNPM_NO_GLOBAL_BIN_DIR'') ''workspace''"
  "\<not> includes_str (toLowerCase ''ERR_PNPM_NO_GLOBAL_BIN_DIR'')
       (toLowerCase ''ERR_PNPM_WORKSPACE_PKG_NOT_FOUND'')"
  "\<not> includes_str (toLowerCase ''Command failed'') ''workspace''"
  "\<not> includes_str (toLowerCase ''Command failed'')
       (toLowerCase ''ERR_PNPM_WORKSPACE_PKG_NOT_FOUND'')"
  "\<not> includes_str (toLowerCase ''Command execution failed: \<newline>Some other error'')
       ''workspace''"
  "\<not> includes_str (toLowerCase ''Command execution failed: \<newline>Some other error'')
       (toLowerCase ''ERR_PNPM_WORKSPACE_PKG_NOT_FOUND'')"
  by code_simp+

text \<open>
  Claim C3, as stated, classifies a failure by the standard error and the error text
  of the failed command. The Error that \<^verbatim>\<open>executeCommand\<close> rejects with carries
  \<open>Command execution failed: \<close>, the standard output, a line feed and the standard
  error; the message of the error that \<^verbatim>\<open>cp.exec\<close> reports is only logged. Here
  the link command fails with \<open>workspace\<close> in its standard output alone: neither its
  standard error nor the message of its error contains \<open>workspace\<close> or the token, and
  the add command is executed all the same.
\<close>

theorem fallback_on_workspace_in_stdout:
  "exec (valid_package (detects ''pnpm'')
           (fails_with ''Scope: all 3 workspace projects'' ''ERR_PNPM_NO_GLOBAL_BIN_DIR'')
           (succeeds_with ''ok'')) 0 ''pnpm link /pkg'' ''/proj''
     = ExecCallback (JErr (Error ''Command failed'')) ''Scope: all 3 workspace projects''
         ''ERR_PNPM_NO_GLOBAL_BIN_DIR''
   \<and> \<not> includes_str (toLowerCase ''ERR_PNPM_NO_GLOBAL_BIN_DIR'') ''workspace''
   \<and> \<not> includes_str (toLowerCase ''ERR_PNPM_NO_GLOBAL_BIN_DIR'')
         (toLowerCase ''ERR_PNPM_WORKSPACE_PKG_NOT_FOUND'')
   \<and> \<not> includes_str (toLowerCase ''Command failed'') ''workspace''
   \<and> \<not> includes_str (toLowerCase ''Command failed'')
         (toLowerCase ''ERR_PNPM_WORKSPACE_PKG_NOT_FOUND'')
   \<and> npmLink (valid_package (detects ''pnpm'')
                (fails_with ''Scope: all 3 workspace projects'' ''ERR_PNPM_NO_GLOBAL_BIN_DIR'')
                (succeeds_with ''ok'')) example_options =
       (Inr \<lparr>success = True,
             message = ''Successfully added foo from /pkg to project at /proj (fallback from link)\<newline>ok'',
             error = None\<rparr>,
        [(''pnpm link /pkg'', ''/proj''), (''pnpm add --save /pkg'', ''/proj'')])"
proof -
  let ?e = "valid_package (detects ''pnpm'')
              (fails_with ''Scope: all 3 workspace projects'' ''ERR_PNPM_NO_GLOBAL_BIN_DIR'')
              (succeeds_with ''ok'')"
  have first: "exec ?e 0 (createLinkCommand ''pnpm'' ''/pkg'') ''/proj''
      = ExecCallback (JErr (Error ''Command failed'')) ''Scope: all 3 workspace projects''
          ''ERR_PNPM_NO_GLOBAL_BIN_DIR''"
    by (simp add: valid_package_fields fails_with_def)
  have run: "executeLinkWithFallback ?e ''pnpm'' ''prod'' ''/pkg'' ''/proj'' ''foo'' =
      (Inr \<lparr>success = True,
            message = ''Successfully added foo from /pkg to project at /proj (fallback from link)\<newline>ok'',
            error = None\<rparr>,
       [(''pnpm link /pkg'', ''/proj''), (''pnpm add --save /pkg'', ''/proj'')])"
    by (subst link_fails_workspace [OF first])
      (simp_all add: classified_messages getAddCommand_examples valid_package_fields
        succeeds_with_def trim_examples createLinkCommand_def)
  have "npmLink ?e example_options =
       (Inr \<lparr>success = True,
             message = ''Successfully added foo from /pkg to project at /proj (fallback from link)\<newline>ok'',
             error = None\<rparr>,
        [(''pnpm link /pkg'', ''/proj''), (''pnpm add --save /pkg'', ''/proj'')])"
    by (subst npmLink_valid)
      (simp_all add: example_options_fields valid_package_validates detected_manager run)
  with first lower_case_examples show ?thesis
    by (simp add: createLinkCommand_def)
qed

text \<open>
  Claim C3, amended: a link-command execution failure is classified as
  workspace-related exactly when the message of the Error that \<^verbatim>\<open>executeCommand\<close>
  rejects with, \<open>Command execution failed: \<close> followed by the standard output, a line
  feed and the standard error, contains in lower case the substring \<open>workspace\<close> or
  the lower-cased token \<open>ERR_PNPM_WORKSPACE_PKG_NOT_FOUND\<close>. Only in that case is a
  second command executed, and every other execution failure is the final failure
  after the one command.
\<close>

theorem link_failure_classification:
  assumes "validatePackage e (packagePath options) (packageName options) = None"
    and "exec e 0 (createLinkCommand (detectPackageManager e (projectPath options))
                     (packagePath options)) (projectPath options)
           = ExecCallback err stdout stderr"
    and "truthy err"
  shows "let text = ''Command execution failed: '' @ stdout @ ''\<newline>'' @ stderr;
             workspace =
               (includes_str (toLowerCase text) ''workspace'' \<or>
                includes_str (toLowerCase text)
                  (toLowerCase ''ERR_PNPM_WORKSPACE_PKG_NOT_FOUND''));
             linkCommand = createLinkCommand (detectPackageManager e (projectPath options))
                             (packagePath options)
         in fst (executeCommand e [] linkCommand (projectPath options)) = Inl (JErr (Error text))
            \<and> is_workspace_failure (JErr (Error text)) = workspace
            \<and> (snd (npmLink e options) \<noteq> [(linkCommand, projectPath options)]
                 \<longrightarrow> workspace)
            \<and> (\<not> workspace \<longrightarrow>
                 npmLink e options =
                   (Inr \<lparr>success = False,
                         message = ''Failed to create link: '' @ text,
                         error = Some (JErr (Error text))\<rparr>,
                    [(linkCommand, projectPath options)]))"
proof -
  let ?text = "''Command execution failed: '' @ stdout @ ''\<newline>'' @ stderr"
  let ?link = "createLinkCommand (detectPackageManager e (projectPath options))
                 (packagePath options)"
  have rejects: "fst (executeCommand e [] ?link (projectPath options)) = Inl (JErr (Error ?text))"
    using assms(2,3) by (simp add: executeCommand_def)
  have classified: "is_workspace_failure (JErr (Error ?text)) =
      (includes_str (toLowerCase ?text) ''workspace'' \<or>
       includes_str (toLowerCase ?text) (toLowerCase ''ERR_PNPM_WORKSPACE_PKG_NOT_FOUND''))"
    by (simp only: is_workspace_failure.simps isWorkspaceError_text)
  have final: "npmLink e options =
      (Inr \<lparr>success = False, message = ''Failed to create link: '' @ ?text,
            error = Some (JErr (Error ?text))\<rparr>,
       [(?link, projectPath options)])"
    if "\<not> is_workspace_failure (JErr (Error ?text))"
    using that link_fails_other [OF assms(2,3)]
    by (simp add: npmLink_valid [OF assms(1)] npmLink_catch_def)
  from rejects classified final show ?thesis
    unfolding Let_def by (metis snd_conv)
qed

text \<open>The amended claim C3 at a link command that fails with an unrelated error.\<close>

theorem link_failure_classification_witness:
  "validatePackage (valid_package (detects ''pnpm'') (fails_with [] ''Some other error'')
        (succeeds_with ''ok'')) ''/pkg'' ''foo'' = None
   \<and> exec (valid_package (detects ''pnpm'') (fails_with [] ''Some other error'')
        (succeeds_with ''ok'')) 0 ''pnpm link /pkg'' ''/proj''
       = ExecCallback (JErr (Error ''Command failed'')) [] ''Some other error''
   \<and> truthy (JErr (Error ''Command failed''))
   \<and> \<not> includes_str (toLowerCase ''Command execution failed: \<newline>Some other error'')
         ''workspace''
   \<and> \<not> includes_str (toLowerCase ''Command execution failed: \<newline>Some other error'')
         (toLowerCase ''ERR_PNPM_WORKSPACE_PKG_NOT_FOUND'')
   \<and> npmLink (valid_package (detects ''pnpm'') (fails_with [] ''Some other error'')
        (succeeds_with ''ok'')) example_options =
       (Inr \<lparr>success = False,
             message = ''Failed to create link: Command execution failed: \<newline>Some other error'',
             error = Some (JErr (Error ''Command execution failed: \<newline>Some other error''))\<rparr>,
        [(''pnpm link /pkg'', ''/proj'')])"
proof -
  let ?e = "valid_package (detects ''pnpm'') (fails_with [] ''Some other error'')
              (succeeds_with ''ok'')"
  have valid: "validatePackage ?e (packagePath example_options) (packageName example_options)
      = None"
    by (simp add: example_options_fields valid_package_validates)
  have first: "exec ?e 0 (createLinkCommand (detectPackageManager ?e (projectPath example_options))
                     (packagePath example_options)) (projectPath example_options)
      = ExecCallback (JErr (Error ''Command failed'')) [] ''Some other error''"
    by (simp add: valid_package_fields fails_with_def)
  have failed: "truthy (JErr (Error ''Command failed''))"
    by simp
  from link_failure_classification [OF valid first failed] lower_case_examples(5,6)
  have "npmLink ?e example_options =
       (Inr \<lparr>success = False,
             message = ''Failed to create link: '' @ ''Command execution failed: '' @ []
               @ ''\<newline>'' @ ''Some other error'',
             error = Some (JErr (Error (''Command execution failed: '' @ []
               @ ''\<newline>'' @ ''Some other error'')))\<rparr>,
        [(createLinkCommand (detectPackageManager ?e (projectPath example_options))
            (packagePath example_options), projectPath example_options)])"
    unfolding Let_def by simp
  with valid first lower_case_examples(5,6) show ?thesis
    by (simp add: example_options_fields detected_manager createLinkCommand_def)
qed

text \<open>
  The commands executed for a valid package, whenever \<^verbatim>\<open>getAddCommand\<close> returns a
  command.
\<close>

lemma command_executions:
  assumes "validatePackage e (packagePath options) (packageName options) = None"
    and "exec e 0 (createLinkCommand (detectPackageManager e (projectPath options))
                     (packagePath options)) (projectPath options)
           = ExecCallback err stdout stderr"
  shows "(\<not> truthy err \<longrightarrow>
           snd (npmLink e options) =
             [(createLinkCommand (detectPackageManager e (projectPath options))
                 (packagePath options), projectPath options)])
     \<and> (truthy err
        \<and> \<not> isWorkspaceError (Error (''Command execution failed: '' @ stdout @ ''\<newline>''
              @ stderr))
        \<longrightarrow> snd (npmLink e options) =
              [(createLinkCommand (detectPackageManager e (projectPath options))
                  (packagePath options), projectPath options)]
            \<and> (\<exists>result. fst (npmLink e options) = Inr result \<and> \<not> success result))
     \<and> (truthy err
        \<and> isWorkspaceError (Error (''Command execution failed: '' @ stdout @ ''\<newline>''
              @ stderr))
        \<and> getAddCommand (detectPackageManager e (projectPath options)) (packagePath options)
             (case dependencyType options of None \<Rightarrow> ''prod'' | Some d \<Rightarrow> d)
           = Inr addCommand
        \<longrightarrow> snd (npmLink e options) =
              [(createLinkCommand (detectPackageManager e (projectPath options))
                  (packagePath options), projectPath options),
               (addCommand, projectPath options)])"
proof (intro conjI impI)
  assume "\<not> truthy err"
  then show "snd (npmLink e options) =
             [(createLinkCommand (detectPackageManager e (projectPath options))
                 (packagePath options), projectPath options)]"
    by (simp add: npmLink_valid [OF assms(1)] link_succeeds [OF assms(2)])
next
  assume other: "truthy err
        \<and> \<not> isWorkspaceError (Error (''Command execution failed: '' @ stdout @ ''\<newline>''
              @ stderr))"
  then have run: "npmLink e options =
      (Inr \<lparr>success = False,
            message = ''Failed to create link: '' @ ''Command execution failed: '' @ stdout
              @ ''\<newline>'' @ stderr,
            error = Some (JErr (Error (''Command execution failed: '' @ stdout @ ''\<newline>''
              @ stderr)))\<rparr>,
       [(createLinkCommand (detectPackageManager e (projectPath options))
           (packagePath options), projectPath options)])"
    using link_fails_other [OF assms(2)]
    by (simp add: npmLink_valid [OF assms(1)] npmLink_catch_def)
  show "snd (npmLink e options) =
              [(createLinkCommand (detectPackageManager e (projectPath options))
                  (packagePath options), projectPath options)]"
    by (simp only: run snd_conv)
  show "\<exists>result. fst (npmLink e options) = Inr result \<and> \<not> success result"
    by (simp only: run fst_conv) simp
next
  assume ws: "truthy err
        \<and> isWorkspaceError (Error (''Command execution failed: '' @ stdout @ ''\<newline>''
              @ stderr))
        \<and> getAddCommand (detectPackageManager e (projectPath options)) (packagePath options)
             (case dependencyType options of None \<Rightarrow> ''prod'' | Some d \<Rightarrow> d)
           = Inr addCommand"
  let ?run = "executeLinkWithFallback e (detectPackageManager e (projectPath options))
             (case dependencyType options of None \<Rightarrow> ''prod'' | Some d \<Rightarrow> d)
             (packagePath options) (projectPath options) (packageName options)"
  have "snd ?run =
      [(createLinkCommand (detectPackageManager e (projectPath options))
          (packagePath options), projectPath options),
       (addCommand, projectPath options)]"
    using ws
    by (subst link_fails_workspace [OF assms(2)]) simp_all
  moreover have "snd (npmLink e options) = snd ?run"
    by (cases ?run) (simp add: npmLink_valid [OF assms(1)] split: sum.splits)
  ultimately show "snd (npmLink e options) =
              [(createLinkCommand (detectPackageManager e (projectPath options))
                  (packagePath options), projectPath options),
               (addCommand, projectPath options)]"
    by simp
qed

lemma add_command_is_no_link_command:
  assumes "getAddCommand manager path dep = Inr addCommand"
  shows "addCommand \<noteq> createLinkCommand manager path"
proof -
  have rows:
    "getAddCommand ''npm'' path dep \<noteq> Inr (''npm link '' @ path)"
    "getAddCommand ''yarn'' path dep \<noteq> Inr (''yarn link '' @ path)"
    "getAddCommand ''pnpm'' path dep \<noteq> Inr (''pnpm link '' @ path)"
    "getAddCommand ''bun'' path dep \<noteq> Inr (''bun link '' @ path)"
    by (simp_all add: getAddCommand_rows Let_def)
  consider (inherited) "manager \<in> set object_prototype_keys"
    | (npm) "manager = ''npm''" | (yarn) "manager = ''yarn''"
    | (pnpm) "manager = ''pnpm''" | (bun) "manager = ''bun''"
    | (other) "manager \<notin> set object_prototype_keys"
        "manager \<notin> {''npm'', ''pnpm'', ''bun'', ''yarn''}"
    by blast
  then show ?thesis
  proof cases
    case inherited
    with assms show ?thesis by (simp add: getAddCommand_inherited)
  next
    case npm
    with assms rows(1) show ?thesis by (auto simp add: createLinkCommand_def)
  next
    case yarn
    with assms rows(2) show ?thesis by (auto simp add: createLinkCommand_def)
  next
    case pnpm
    with assms rows(3) show ?thesis by (auto simp add: createLinkCommand_def)
  next
    case bun
    with assms rows(4) show ?thesis by (auto simp add: createLinkCommand_def)
  next
    case other
    with assms have "getAddCommand ''npm'' path dep = Inr addCommand"
      by (simp add: getAddCommand_fallback)
    with other(2) rows(1) show ?thesis by (auto simp add: createLinkCommand_def)
  qed
qed

lemma getAddCommand_returns:
  assumes "manager \<notin> set object_prototype_keys"
  shows "\<exists>addCommand. getAddCommand manager path dep = Inr addCommand"
proof (cases "manager \<in> {''npm'', ''pnpm'', ''bun'', ''yarn''}")
  case True
  then show ?thesis by (auto simp add: getAddCommand_rows)
next
  case False
  with assms show ?thesis by (simp add: getAddCommand_fallback getAddCommand_rows)
qed

text \<open>
  Claim C4: for every package that passes validation the link command is executed
  exactly once. If it succeeds, it is the only command. If it fails with a
  workspace-classified error, the add command is executed exactly once more, whatever
  its outcome, so that two commands are executed in total and nothing is retried. If it
  fails with another error, it remains the only command and the result has
  \<open>success = False\<close>. The manager is any name that the detector reports, which names
  no property of \<^verbatim>\<open>Object.prototype\<close>.
\<close>

theorem link_then_fallback_executions:
  assumes "validatePackage e (packagePath options) (packageName options) = None"
    and "detectPackageManager e (projectPath options) \<notin> set object_prototype_keys"
    and "exec e 0 (createLinkCommand (detectPackageManager e (projectPath options))
                     (packagePath options)) (projectPath options)
           = ExecCallback err stdout stderr"
  shows "(\<not> truthy err \<longrightarrow>
           snd (npmLink e options) =
             [(createLinkCommand (detectPackageManager e (projectPath options))
                 (packagePath options), projectPath options)])
     \<and> (truthy err
        \<and> isWorkspaceError (Error (''Command execution failed: '' @ stdout @ ''\<newline>''
              @ stderr))
        \<longrightarrow> (\<exists>addCommand.
              getAddCommand (detectPackageManager e (projectPath options))
                (packagePath options)
                (case dependencyType options of None \<Rightarrow> ''prod'' | Some d \<Rightarrow> d)
              = Inr addCommand
              \<and> addCommand \<noteq> createLinkCommand (detectPackageManager e (projectPath options))
                    (packagePath options)
              \<and> snd (npmLink e options) =
                  [(createLinkCommand (detectPackageManager e (projectPath options))
                      (packagePath options), projectPath options),
                   (addCommand, projectPath options)]))
     \<and> (truthy err
        \<and> \<not> isWorkspaceError (Error (''Command execution failed: '' @ stdout @ ''\<newline>''
              @ stderr))
        \<longrightarrow> snd (npmLink e options) =
              [(createLinkCommand (detectPackageManager e (projectPath options))
                  (packagePath options), projectPath options)]
            \<and> (\<exists>result. fst (npmLink e options) = Inr result \<and> \<not> success result))"
proof -
  obtain addCommand where add:
    "getAddCommand (detectPackageManager e (projectPath options)) (packagePath options)
       (case dependencyType options of None \<Rightarrow> ''prod'' | Some d \<Rightarrow> d) = Inr addCommand"
    using getAddCommand_returns [OF assms(2)] by blast
  note other = add_command_is_no_link_command [OF add]
  from command_executions [OF assms(1,3), of addCommand] add other show ?thesis
    by blast
qed

text \<open>
  Claim C4 at the run of the specification: pnpm is detected, the link command fails
  with \<open>ERR_PNPM_WORKSPACE_PKG_NOT_FOUND\<close> on its standard error, and the add command
  is the second and last command.
\<close>

theorem link_then_fallback_executions_witness:
  "validatePackage (valid_package (detects ''pnpm'')
        (fails_with [] ''ERR_PNPM_WORKSPACE_PKG_NOT_FOUND'') (succeeds_with ''ok''))
      ''/pkg'' ''foo'' = None
   \<and> ''pnpm'' \<notin> set object_prototype_keys
   \<and> exec (valid_package (detects ''pnpm'')
        (fails_with [] ''ERR_PNPM_WORKSPACE_PKG_NOT_FOUND'') (succeeds_with ''ok''))
        0 ''pnpm link /pkg'' ''/proj''
       = ExecCallback (JErr (Error ''Command failed'')) [] ''ERR_PNPM_WORKSPACE_PKG_NOT_FOUND''
   \<and> truthy (JErr (Error ''Command failed''))
   \<and> isWorkspaceError
        (Error ''Command execution failed: \<newline>ERR_PNPM_WORKSPACE_PKG_NOT_FOUND'')
   \<and> snd (npmLink (valid_package (detects ''pnpm'')
        (fails_with [] ''ERR_PNPM_WORKSPACE_PKG_NOT_FOUND'') (succeeds_with ''ok''))
        example_options) =
       [(''pnpm link /pkg'', ''/proj''), (''pnpm add --save /pkg'', ''/proj'')]"
proof -
  let ?e = "valid_package (detects ''pnpm'')
        (fails_with [] ''ERR_PNPM_WORKSPACE_PKG_NOT_FOUND'') (succeeds_with ''ok'')"
  have valid: "validatePackage ?e (packagePath example_options) (packageName example_options)
      = None"
    by (simp add: example_options_fields valid_package_validates)
  have manager: "detectPackageManager ?e (projectPath example_options)
      \<notin> set object_prototype_keys"
    by (simp add: detected_manager object_prototype_keys_def)
  have first: "exec ?e 0 (createLinkCommand (detectPackageManager ?e (projectPath example_options))
                     (packagePath example_options)) (projectPath example_options)
      = ExecCallback (JErr (Error ''Command failed'')) [] ''ERR_PNPM_WORKSPACE_PKG_NOT_FOUND''"
    by (simp add: valid_package_fields fails_with_def)
  have classified: "truthy (JErr (Error ''Command failed''))
      \<and> isWorkspaceError (Error (''Command execution failed: '' @ [] @ ''\<newline>''
            @ ''ERR_PNPM_WORKSPACE_PKG_NOT_FOUND''))"
    by (simp add: classified_messages)
  from link_then_fallback_executions [OF valid manager first] classified
  obtain addCommand where
    "getAddCommand (detectPackageManager ?e (projectPath example_options))
       (packagePath example_options)
       (case dependencyType example_options of None \<Rightarrow> ''prod'' | Some d \<Rightarrow> d)
     = Inr addCommand"
    and "snd (npmLink ?e example_options) =
       [(createLinkCommand (detectPackageManager ?e (projectPath example_options))
           (packagePath example_options), projectPath example_options),
        (addCommand, projectPath example_options)]"
    by blast
  then have "snd (npmLink ?e example_options) =
       [(''pnpm link /pkg'', ''/proj''), (''pnpm add --save /pkg'', ''/proj'')]"
    by (simp add: example_options_fields detected_manager getAddCommand_examples
        createLinkCommand_def)
  with valid first classified show ?thesis
    by (simp add: example_options_fields detected_manager object_prototype_keys_def
        createLinkCommand_def)
qed

section \<open>Result composition\<close>

text \<open>
  Claim C6, as stated, ends the message of a successful link with the standard output
  of the command. \<^verbatim>\<open>executeCommand\<close> resolves with \<^verbatim>\<open>stdout.trim()\<close>: when the
  command prints \<open>ok\<close> and a line feed, the message ends with \<open>ok\<close>, not with the
  output as printed.
\<close>

theorem success_message_trims_stdout:
  "exec (valid_package (detects ''pnpm'') (succeeds_with ''ok\<newline>'') (succeeds_with ''ok''))
      0 ''pnpm link /pkg'' ''/proj'' = ExecCallback JNull ''ok\<newline>'' []
   \<and> fst (npmLink (valid_package (detects ''pnpm'') (succeeds_with ''ok\<newline>'')
                    (succeeds_with ''ok'')) example_options)
       = Inr \<lparr>success = True,
               message = ''Successfully linked foo from /pkg to project at /proj\<newline>ok'',
               error = None\<rparr>
   \<and> fst (npmLink (valid_package (detects ''pnpm'') (succeeds_with ''ok\<newline>'')
                    (succeeds_with ''ok'')) example_options)
       \<noteq> Inr \<lparr>success = True,
               message = ''Successfully linked foo from /pkg to project at /proj\<newline>''
                 @ ''ok\<newline>'',
               error = None\<rparr>"
proof -
  let ?e = "valid_package (detects ''pnpm'') (succeeds_with ''ok\<newline>'') (succeeds_with ''ok'')"
  have first: "exec ?e 0 (createLinkCommand ''pnpm'' ''/pkg'') ''/proj''
      = ExecCallback JNull ''ok\<newline>'' []"
    by (simp add: valid_package_fields succeeds_with_def)
  have "npmLink ?e example_options =
      (Inr \<lparr>success = True,
            message = ''Successfully linked foo from /pkg to project at /proj\<newline>ok'',
            error = None\<rparr>,
       [(''pnpm link /pkg'', ''/proj'')])"
    by (subst npmLink_valid)
      (simp_all add: example_options_fields valid_package_validates detected_manager
        link_succeeds [OF first] trim_examples createLinkCommand_def)
  with first show ?thesis
    by (simp add: createLinkCommand_def)
qed

text \<open>
  Claim C6, amended: when validation passes and the link command succeeds with standard
  output \<open>stdout\<close>, the result is \<open>success = True\<close> with the message
  \<open>Successfully linked <packageName> from <packagePath> to project at <projectPath>\<close>,
  a line feed, and \<open>stdout\<close> with the white space at both ends trimmed, and no error;
  one command is executed. When the link fails with a workspace error and the add
  command succeeds, the message is
  \<open>Successfully added <packageName> from <packagePath> to project at <projectPath> (fallback from link)\<close>,
  a line feed and the trimmed standard output of the add command. In the end-to-end
  example of the specification (package \<open>/pkg\<close> named \<open>foo\<close>, project \<open>/proj\<close>, no
  dependency type, detector answering pnpm, standard output \<open>ok\<close>) the message is
  \<open>Successfully linked foo from /pkg to project at /proj\<close>, a line feed and \<open>ok\<close>.
\<close>

theorem success_messages:
  "(validatePackage e (packagePath options) (packageName options) = None
    \<and> exec e 0 (createLinkCommand (detectPackageManager e (projectPath options))
                  (packagePath options)) (projectPath options)
        = ExecCallback err stdout stderr
    \<and> \<not> truthy err
    \<longrightarrow> npmLink e options =
          (Inr \<lparr>success = True,
                message = ''Successfully linked '' @ packageName options @ '' from ''
                  @ packagePath options @ '' to project at '' @ projectPath options
                  @ ''\<newline>'' @ trim stdout,
                error = None\<rparr>,
           [(createLinkCommand (detectPackageManager e (projectPath options))
               (packagePath options), projectPath options)]))
   \<and> (validatePackage e (packagePath options) (packageName options) = None
      \<and> exec e 0 (createLinkCommand (detectPackageManager e (projectPath options))
                    (packagePath options)) (projectPath options)
          = ExecCallback err stdout stderr
      \<and> truthy err
      \<and> isWorkspaceError (Error (''Command execution failed: '' @ stdout @ ''\<newline>''
            @ stderr))
      \<and> getAddCommand (detectPackageManager e (projectPath options)) (packagePath options)
            (case dependencyType options of None \<Rightarrow> ''prod'' | Some d \<Rightarrow> d)
          = Inr addCommand
      \<and> exec e 1 addCommand (projectPath options) = ExecCallback err' stdout' stderr'
      \<and> \<not> truthy err'
      \<longrightarrow> npmLink e options =
            (Inr \<lparr>success = True,
                  message = ''Successfully added '' @ packageName options @ '' from ''
                    @ packagePath options @ '' to project at '' @ projectPath options
                    @ '' (fallback from link)\<newline>'' @ trim stdout',
                  error = None\<rparr>,
             [(createLinkCommand (detectPackageManager e (projectPath options))
                 (packagePath options), projectPath options),
              (addCommand, projectPath options)]))
   \<and> npmLink (valid_package (detects ''pnpm'') (succeeds_with ''ok'') (succeeds_with ''ok''))
        example_options =
       (Inr \<lparr>success = True,
             message = ''Successfully linked foo from /pkg to project at /proj\<newline>ok'',
             error = None\<rparr>,
        [(''pnpm link /pkg'', ''/proj'')])"
proof (intro conjI impI)
  assume "validatePackage e (packagePath options) (packageName options) = None
    \<and> exec e 0 (createLinkCommand (detectPackageManager e (projectPath options))
                  (packagePath options)) (projectPath options)
        = ExecCallback err stdout stderr
    \<and> \<not> truthy err"
  then show "npmLink e options =
          (Inr \<lparr>success = True,
                message = ''Successfully linked '' @ packageName options @ '' from ''
                  @ packagePath options @ '' to project at '' @ projectPath options
                  @ ''\<newline>'' @ trim stdout,
                error = None\<rparr>,
           [(createLinkCommand (detectPackageManager e (projectPath options))
               (packagePath options), projectPath options)])"
    by (simp add: npmLink_valid link_succeeds)
next
  assume a: "validatePackage e (packagePath options) (packageName options) = None
      \<and> exec e 0 (createLinkCommand (detectPackageManager e (projectPath options))
                    (packagePath options)) (projectPath options)
          = ExecCallback err stdout stderr
      \<and> truthy err
      \<and> isWorkspaceError (Error (''Command execution failed: '' @ stdout @ ''\<newline>''
            @ stderr))
      \<and> getAddCommand (detectPackageManager e (projectPath options)) (packagePath options)
            (case dependencyType options of None \<Rightarrow> ''prod'' | Some d \<Rightarrow> d)
          = Inr addCommand
      \<and> exec e 1 addCommand (projectPath options) = ExecCallback err' stdout' stderr'
      \<and> \<not> truthy err'"
  then have "executeLinkWithFallback e (detectPackageManager e (projectPath options))
       (case dependencyType options of None \<Rightarrow> ''prod'' | Some d \<Rightarrow> d)
       (packagePath options) (projectPath options) (packageName options) =
     (Inr \<lparr>success = True,
                  message = ''Successfully added '' @ packageName options @ '' from ''
                    @ packagePath options @ '' to project at '' @ projectPath options
                    @ '' (fallback from link)\<newline>'' @ trim stdout',
                  error = None\<rparr>,
             [(createLinkCommand (detectPackageManager e (projectPath options))
                 (packagePath options), projectPath options),
              (addCommand, projectPath options)])"
    by (subst link_fails_workspace [where err = err and stdout = stdout and stderr = stderr])
       simp_all
  with a show "npmLink e options =
            (Inr \<lparr>success = True,
                  message = ''Successfully added '' @ packageName options @ '' from ''
                    @ packagePath options @ '' to project at '' @ projectPath options
                    @ '' (fallback from link)\<newline>'' @ trim stdout',
                  error = None\<rparr>,
             [(createLinkCommand (detectPackageManager e (projectPath options))
                 (packagePath options), projectPath options),
              (addCommand, projectPath options)])"
    by (simp add: npmLink_valid)
next
  let ?e = "valid_package (detects ''pnpm'') (succeeds_with ''ok'') (succeeds_with ''ok'')"
  have first: "exec ?e 0 (createLinkCommand ''pnpm'' ''/pkg'') ''/proj''
      = ExecCallback JNull ''ok'' []"
    by (simp add: valid_package_fields succeeds_with_def)
  show "npmLink ?e example_options =
      (Inr \<lparr>success = True,
            message = ''Successfully linked foo from /pkg to project at /proj\<newline>ok'',
            error = None\<rparr>,
       [(''pnpm link /pkg'', ''/proj'')])"
    by (subst npmLink_valid)
      (simp_all add: example_options_fields valid_package_validates detected_manager
        link_succeeds [OF first] trim_examples createLinkCommand_def)
qed

text \<open>The amended claim C6 at a fallback whose add command prints a line.\<close>

theorem success_messages_witness:
  "validatePackage (valid_package (detects ''pnpm'')
        (fails_with [] ''ERR_PNPM_WORKSPACE_PKG_NOT_FOUND'')
        (succeeds_with ''added 1 package\<newline>'')) ''/pkg'' ''foo'' = None
   \<and> exec (valid_package (detects ''pnpm'')
        (fails_with [] ''ERR_PNPM_WORKSPACE_PKG_NOT_FOUND'')
        (succeeds_with ''added 1 package\<newline>'')) 0 ''pnpm link /pkg'' ''/proj''
       = ExecCallback (JErr (Error ''Command failed'')) [] ''ERR_PNPM_WORKSPACE_PKG_NOT_FOUND''
   \<and> truthy (JErr (Error ''Command failed''))
   \<and> isWorkspaceError
        (Error ''Command execution failed: \<newline>ERR_PNPM_WORKSPACE_PKG_NOT_FOUND'')
   \<and> getAddCommand ''pnpm'' ''/pkg'' ''prod'' = Inr ''pnpm add --save /pkg''
   \<and> exec (valid_package (detects ''pnpm'')
        (fails_with [] ''ERR_PNPM_WORKSPACE_PKG_NOT_FOUND'')
        (succeeds_with ''added 1 package\<newline>'')) 1 ''pnpm add --save /pkg'' ''/proj''
       = ExecCallback JNull ''added 1 package\<newline>'' []
   \<and> \<not> truthy JNull
   \<and> npmLink (valid_package (detects ''pnpm'')
        (fails_with [] ''ERR_PNPM_WORKSPACE_PKG_NOT_FOUND'')
        (succeeds_with ''added 1 package\<newline>'')) example_options =
       (Inr \<lparr>success = True,
             message = ''Successfully added foo from /pkg to project at /proj (fallback from link)\<newline>added 1 package'',
             error = None\<rparr>,
        [(''pnpm link /pkg'', ''/proj''), (''pnpm add --save /pkg'', ''/proj'')])"
proof -
  let ?e = "valid_package (detects ''pnpm'')
        (fails_with [] ''ERR_PNPM_WORKSPACE_PKG_NOT_FOUND'')
        (succeeds_with ''added 1 package\<newline>'')"
  have hyps: "validatePackage ?e (packagePath example_options) (packageName example_options) = None
      \<and> exec ?e 0 (createLinkCommand (detectPackageManager ?e (projectPath example_options))
                    (packagePath example_options)) (projectPath example_options)
          = ExecCallback (JErr (Error ''Command failed'')) [] ''ERR_PNPM_WORKSPACE_PKG_NOT_FOUND''
      \<and> truthy (JErr (Error ''Command failed''))
      \<and> isWorkspaceError (Error (''Command execution failed: '' @ [] @ ''\<newline>''
            @ ''ERR_PNPM_WORKSPACE_PKG_NOT_FOUND''))
      \<and> getAddCommand (detectPackageManager ?e (projectPath example_options))
            (packagePath example_options)
            (case dependencyType example_options of None \<Rightarrow> ''prod'' | Some d \<Rightarrow> d)
          = Inr ''pnpm add --save /pkg''
      \<and> exec ?e 1 ''pnpm add --save /pkg'' (projectPath example_options)
          = ExecCallback JNull ''added 1 package\<newline>'' []
      \<and> \<not> truthy JNull"
    by (simp add: example_options_fields valid_package_validates detected_manager
        valid_package_fields fails_with_def succeeds_with_def classified_messages
        getAddCommand_examples)
  from success_messages [of ?e example_options "JErr (Error ''Command failed'')" "[]"
      "''ERR_PNPM_WORKSPACE_PKG_NOT_FOUND''" "''pnpm add --save /pkg''" JNull
      "''added 1 package\<newline>''" "[]"] hyps
  have "npmLink ?e example_options =
            (Inr \<lparr>success = True,
                  message = ''Successfully added '' @ packageName example_options @ '' from ''
                    @ packagePath example_options @ '' to project at ''
                    @ projectPath example_options
                    @ '' (fallback from link)\<newline>'' @ trim ''added 1 package\<newline>'',
                  error = None\<rparr>,
             [(createLinkCommand (detectPackageManager ?e (projectPath example_options))
                 (packagePath example_options), projectPath example_options),
              (''pnpm add --save /pkg'', projectPath example_options)])"
    by blast
  then show ?thesis
    by (simp add: example_options_fields valid_package_validates detected_manager
        valid_package_fields fails_with_def succeeds_with_def classified_messages
        getAddCommand_examples trim_examples createLinkCommand_def)
qed

section \<open>Package-manager detection\<close>

lemma validatePackage_ignores_detect:
  "validatePackage (e\<lparr>detect := d\<rparr>) path pname = validatePackage e path pname"
  by (simp add: validatePackage_def validatePackage_try_def Let_def
      cong: sum.case_cong if_cong)

lemma executeCommand_ignores_detect:
  "executeCommand (e\<lparr>detect := d\<rparr>) = executeCommand e"
  by (simp add: executeCommand_def fun_eq_iff)

lemma executeLinkWithFallback_ignores_detect:
  "executeLinkWithFallback (e\<lparr>detect := d\<rparr>) manager dep path project pname
     = executeLinkWithFallback e manager dep path project pname"
  unfolding executeLinkWithFallback_def executeCommand_ignores_detect by (rule refl)

lemma empty_manager_is_npm:
  "createLinkCommand [] path = createLinkCommand ''npm'' path"
  "getAddCommand [] path dep = getAddCommand ''npm'' path dep"
  by (simp_all add: createLinkCommand_def getAddCommand_def in_packageManagerCommands_def
      object_prototype_keys_def packageManagerCommands_def)

lemma executeLinkWithFallback_empty_manager:
  "executeLinkWithFallback e [] dep path project pname
     = executeLinkWithFallback e ''npm'' dep path project pname"
  unfolding executeLinkWithFallback_def empty_manager_is_npm by (rule refl)

lemma detects_npm:
  "detectPackageManager (e\<lparr>detect := \<lambda>cwd. Inr (Some (DetectResult (Some ''npm'')))\<rparr>) cwd
     = ''npm''"
  by (simp add: detectPackageManager_def)

lemma degraded_detection:
  assumes "(\<exists>thrown. detect e cwd = Inl thrown)
     \<or> detect e cwd = Inr None
     \<or> detect e cwd = Inr (Some (DetectResult None))
     \<or> detect e cwd = Inr (Some (DetectResult (Some [])))"
  shows "detectPackageManager e cwd = ''npm'' \<or> detectPackageManager e cwd = []"
  using assms by (auto simp add: detectPackageManager_def)

text \<open>
  Claim C8: when the detection throws or rejects with any value, resolves with
  \<^verbatim>\<open>null\<close>, or resolves with a name that is \<^verbatim>\<open>null\<close> or empty, the operation
  goes on as if npm had been detected: the outcome and the commands executed are those
  of the same run with a detector that answers npm, so nothing of the detection failure
  reaches the caller. For a valid package whose command succeeds, exactly one command is
  executed, \<open>npm link <packagePath>\<close>, in the project directory.
\<close>

theorem detection_failure_substitutes_npm:
  assumes "(\<exists>thrown. detect e (projectPath options) = Inl thrown)
     \<or> detect e (projectPath options) = Inr None
     \<or> detect e (projectPath options) = Inr (Some (DetectResult None))
     \<or> detect e (projectPath options) = Inr (Some (DetectResult (Some [])))"
  shows "npmLink e options
           = npmLink (e\<lparr>detect := \<lambda>cwd. Inr (Some (DetectResult (Some ''npm'')))\<rparr>) options
     \<and> (validatePackage e (packagePath options) (packageName options) = None
        \<and> exec e 0 (''npm link '' @ packagePath options) (projectPath options)
            = ExecCallback err stdout stderr
        \<and> \<not> truthy err
        \<longrightarrow> npmLink e options =
              (Inr \<lparr>success = True,
                    message = ''Successfully linked '' @ packageName options @ '' from ''
                      @ packagePath options @ '' to project at '' @ projectPath options
                      @ ''\<newline>'' @ trim stdout,
                    error = None\<rparr>,
               [(''npm link '' @ packagePath options, projectPath options)]))"
proof -
  let ?manager = "detectPackageManager e (projectPath options)"
  let ?dep = "case dependencyType options of None \<Rightarrow> ''prod'' | Some d \<Rightarrow> d"
  have manager: "?manager = ''npm'' \<or> ?manager = []"
    using assms by (rule degraded_detection)
  then have as_npm: "executeLinkWithFallback e ?manager ?dep (packagePath options)
        (projectPath options) (packageName options)
      = executeLinkWithFallback e ''npm'' ?dep (packagePath options)
        (projectPath options) (packageName options)"
    by (auto simp add: executeLinkWithFallback_empty_manager)
  have same: "npmLink e options
      = npmLink (e\<lparr>detect := \<lambda>cwd. Inr (Some (DetectResult (Some ''npm'')))\<rparr>) options"
  proof (cases "validatePackage e (packagePath options) (packageName options)")
    case None
    then have "validatePackage (e\<lparr>detect := \<lambda>cwd. Inr (Some (DetectResult (Some ''npm'')))\<rparr>)
        (packagePath options) (packageName options) = None"
      by (simp add: validatePackage_ignores_detect)
    then show ?thesis
      by (simp add: npmLink_valid None executeLinkWithFallback_ignores_detect as_npm
          detects_npm)
  next
    case (Some validationResult)
    then show ?thesis
      by (simp add: npmLink_def validatePackage_ignores_detect)
  qed
  have link: "createLinkCommand ?manager (packagePath options) = ''npm link '' @ packagePath options"
    using manager by (auto simp add: createLinkCommand_def)
  have one: "npmLink e options =
              (Inr \<lparr>success = True,
                    message = ''Successfully linked '' @ packageName options @ '' from ''
                      @ packagePath options @ '' to project at '' @ projectPath options
                      @ ''\<newline>'' @ trim stdout,
                    error = None\<rparr>,
               [(''npm link '' @ packagePath options, projectPath options)])"
    if "validatePackage e (packagePath options) (packageName options) = None"
      and "exec e 0 (''npm link '' @ packagePath options) (projectPath options)
            = ExecCallback err stdout stderr"
      and "\<not> truthy err"
    using that link_succeeds [of e ?manager "packagePath options" "projectPath options" err
        stdout stderr ?dep "packageName options"]
    by (simp add: npmLink_valid link)
  from same one show ?thesis by blast
qed

text \<open>
  Claim C8 at a detector that rejects with the string \<open>Detection failed\<close>, as a test
  of the repository has it.
\<close>

theorem detection_failure_substitutes_npm_witness:
  "detect (valid_package (Inl (JStr ''Detection failed'')) (succeeds_with ''ok'')
      (succeeds_with ''ok'')) ''/proj'' = Inl (JStr ''Detection failed'')
   \<and> validatePackage (valid_package (Inl (JStr ''Detection failed'')) (succeeds_with ''ok'')
        (succeeds_with ''ok'')) ''/pkg'' ''foo'' = None
   \<and> exec (valid_package (Inl (JStr ''Detection failed'')) (succeeds_with ''ok'')
        (succeeds_with ''ok'')) 0 ''npm link /pkg'' ''/proj'' = ExecCallback JNull ''ok'' []
   \<and> \<not> truthy JNull
   \<and> npmLink (valid_package (Inl (JStr ''Detection failed'')) (succeeds_with ''ok'')
        (succeeds_with ''ok'')) example_options =
       (Inr \<lparr>success = True,
             message = ''Successfully linked foo from /pkg to project at /proj\<newline>ok'',
             error = None\<rparr>,
        [(''npm link /pkg'', ''/proj'')])"
proof -
  let ?e = "valid_package (Inl (JStr ''Detection failed'')) (succeeds_with ''ok'')
              (succeeds_with ''ok'')"
  have degraded: "(\<exists>thrown. detect ?e (projectPath example_options) = Inl thrown)
     \<or> detect ?e (projectPath example_options) = Inr None
     \<or> detect ?e (projectPath example_options) = Inr (Some (DetectResult None))
     \<or> detect ?e (projectPath example_options) = Inr (Some (DetectResult (Some [])))"
    by (simp add: valid_package_fields)
  have hyps: "validatePackage ?e (packagePath example_options) (packageName example_options)
        = None
      \<and> exec ?e 0 (''npm link '' @ packagePath example_options) (projectPath example_options)
          = ExecCallback JNull ''ok'' []
      \<and> \<not> truthy JNull"
    by (simp add: example_options_fields valid_package_validates valid_package_fields
        succeeds_with_def)
  from detection_failure_substitutes_npm [OF degraded, of JNull "''ok''" "[]"] hyps
  have "npmLink ?e example_options =
              (Inr \<lparr>success = True,
                    message = ''Successfully linked '' @ packageName example_options
                      @ '' from '' @ packagePath example_options @ '' to project at ''
                      @ projectPath example_options @ ''\<newline>'' @ trim ''ok'',
                    error = None\<rparr>,
               [(''npm link '' @ packagePath example_options, projectPath example_options)])"
    by blast
  then show ?thesis
    by (simp add: example_options_fields valid_package_validates valid_package_fields
        succeeds_with_def trim_examples)
qed

section \<open>Validation\<close>

lemma includes_str_within: "includes_str (before @ sub @ after) sub"
  by (simp add: includes_str_def)

lemma message_substrings:
  "includes_str (''Package directory does not exist: '' @ path) ''does not exist''"
  "includes_str (''No package.json found in: '' @ path) ''No package.json found''"
  "includes_str (''No package name found in package.json: '' @ path) ''No package name found''"
  "includes_str (''Package name in package.json ('' @ found
     @ '') does not match provided package name ('' @ pname @ '')'') ''does not match''"
proof -
  show "includes_str (''Package directory does not exist: '' @ path) ''does not exist''"
    using includes_str_within [of "''Package directory ''" "''does not exist''" "'': '' @ path"]
    by simp
  show "includes_str (''No package.json found in: '' @ path) ''No package.json found''"
    using includes_str_within [of "[]" "''No package.json found''" "'' in: '' @ path"]
    by simp
  show "includes_str (''No package name found in package.json: '' @ path)
      ''No package name found''"
    using includes_str_within [of "[]" "''No package name found''"
        "'' in package.json: '' @ path"]
    by simp
  show "includes_str (''Package name in package.json ('' @ found
     @ '') does not match provided package name ('' @ pname @ '')'') ''does not match''"
    using includes_str_within [of "''Package name in package.json ('' @ found @ '') ''"
        "''does not match''" "'' provided package name ('' @ pname @ '')''"]
    by simp
qed

lemma validatePackage_never_succeeds:
  "validatePackage e path pname = Some result \<Longrightarrow> \<not> success result"
  by (auto simp add: validatePackage_def validatePackage_try_def Let_def
      split: sum.splits if_splits)

lemma npmLink_invalid:
  "validatePackage e (packagePath options) (packageName options) = Some result \<Longrightarrow>
   npmLink e options = (Inr result, [])"
  by (simp add: npmLink_def Let_def)

lemma first_execution:
  "take 1 (snd (executeLinkWithFallback e manager dep path project pname))
     = [(createLinkCommand manager path, project)]"
  by (auto simp add: executeLinkWithFallback_def executeCommand_def Let_def
      split: sum.splits prod.splits exec_behaviour.splits)

lemma npmLink_proceeds:
  assumes "validatePackage e (packagePath options) (packageName options) = None"
  shows "take 1 (snd (npmLink e options)) =
     [(createLinkCommand (detectPackageManager e (projectPath options)) (packagePath options),
       projectPath options)]"
proof -
  let ?run = "executeLinkWithFallback e (detectPackageManager e (projectPath options))
             (case dependencyType options of None \<Rightarrow> ''prod'' | Some d \<Rightarrow> d)
             (packagePath options) (projectPath options) (packageName options)"
  have "snd (npmLink e options) = snd ?run"
    by (cases ?run) (simp add: npmLink_valid [OF assms] split: sum.splits)
  then show ?thesis by (simp only: first_execution)
qed

lemma validation_run_fields:
  "fs_stat (validation_run directory manifest parsed) ''/pkg'' = directory"
  "fs_stat (validation_run directory manifest parsed) ''/pkg/package.json'' = manifest"
  "fs_readFile (validation_run directory manifest parsed) ''/pkg/package.json''
     = Inr manifest_content"
  "path_join (validation_run directory manifest parsed) ''/pkg'' ''package.json''
     = ''/pkg/package.json''"
  "json_parse (validation_run directory manifest parsed) content = parsed"
  by (simp_all add: validation_run_def scenario_def)

lemma absent_substrings:
  "\<not> includes_str ''Failed to create link: ENOENT: no such file or directory''
       ''does not exist''"
  "\<not> includes_str ''Failed to create link: ENOENT: no such file or directory''
       ''No package.json found''"
  by code_simp+

text \<open>
  Claim C5, as stated, gives a non-existent package path a message that contains
  \<open>does not exist\<close>, and a directory without \<open>package.json\<close> a message that
  contains \<open>No package.json found\<close>. In both cases \<^verbatim>\<open>fs.stat\<close> rejects, the
  \<^verbatim>\<open>catch\<close> block of \<^verbatim>\<open>validatePackage\<close> builds the result, and the message is
  \<open>Failed to create link: \<close> followed by the text of the file-system error, as the
  tests of the repository expect.
\<close>

theorem missing_path_is_a_caught_exception:
  "fs_stat (validation_run (Inl enoent) (Inl enoent) (Inr (Manifest (NameString ''foo''))))
      ''/pkg'' = Inl (JErr (Error ''ENOENT: no such file or directory''))
   \<and> validatePackage
        (validation_run (Inl enoent) (Inl enoent) (Inr (Manifest (NameString ''foo''))))
        ''/pkg'' ''foo'' =
       Some \<lparr>success = False,
             message = ''Failed to create link: ENOENT: no such file or directory'',
             error = Some (JErr (Error ''ENOENT: no such file or directory''))\<rparr>
   \<and> \<not> includes_str ''Failed to create link: ENOENT: no such file or directory''
         ''does not exist''
   \<and> fs_stat (validation_run a_directory (Inl enoent) (Inr (Manifest (NameString ''foo''))))
        ''/pkg/package.json'' = Inl (JErr (Error ''ENOENT: no such file or directory''))
   \<and> validatePackage
        (validation_run a_directory (Inl enoent) (Inr (Manifest (NameString ''foo''))))
        ''/pkg'' ''foo'' =
       Some \<lparr>success = False,
             message = ''Failed to create link: ENOENT: no such file or directory'',
             error = Some (JErr (Error ''ENOENT: no such file or directory''))\<rparr>
   \<and> \<not> includes_str ''Failed to create link: ENOENT: no such file or directory''
         ''No package.json found''"
  using absent_substrings
  by (simp add: validatePackage_def validatePackage_try_def validation_run_fields enoent_def
      a_directory_def)

text \<open>
  Claim C5, amended: \<^verbatim>\<open>validatePackage\<close> rejects each of these scenarios with a
  LinkResult whose \<open>success\<close> is false, and no shell command is executed.
  A package path that is not a directory gives a message containing \<open>does not exist\<close>;
  a \<open>package.json\<close> that is not a regular file gives \<open>No package.json found\<close>;
  a manifest without a (truthy) name gives \<open>No package name found\<close>; a name that
  differs from \<open>packageName\<close> and has a text, as every string has, gives
  \<open>does not match\<close>. A package path or a \<open>package.json\<close> that does not exist, for
  which \<^verbatim>\<open>fs.stat\<close> rejects, gives the message \<open>Failed to create link: \<close> followed
  by the text of the rejection, with the error attached; so does a differing name whose
  conversion to a string throws. When all checks pass the function returns \<^verbatim>\<open>null\<close>
  and the orchestrator goes on to execute the link command.
\<close>

theorem validatePackage_scenarios:
  "(\<forall>thrown. fs_stat e (packagePath options) = Inl thrown \<longrightarrow>
      validatePackage e (packagePath options) (packageName options) =
        Some \<lparr>success = False, message = ''Failed to create link: '' @ error_text thrown,
              error = Some (to_error thrown)\<rparr>)
   \<and> (\<forall>st. fs_stat e (packagePath options) = Inr st \<and> \<not> isDirectory st \<longrightarrow>
      validatePackage e (packagePath options) (packageName options) =
        Some \<lparr>success = False,
              message = ''Package directory does not exist: '' @ packagePath options,
              error = None\<rparr>
      \<and> includes_str (''Package directory does not exist: '' @ packagePath options)
           ''does not exist'')
   \<and> (\<forall>st thrown. fs_stat e (packagePath options) = Inr st \<and> isDirectory st
        \<and> fs_stat e (path_join e (packagePath options) ''package.json'') = Inl thrown \<longrightarrow>
      validatePackage e (packagePath options) (packageName options) =
        Some \<lparr>success = False, message = ''Failed to create link: '' @ error_text thrown,
              error = Some (to_error thrown)\<rparr>)
   \<and> (\<forall>st st'. fs_stat e (packagePath options) = Inr st \<and> isDirectory st
        \<and> fs_stat e (path_join e (packagePath options) ''package.json'') = Inr st'
        \<and> \<not> isFile st' \<longrightarrow>
      validatePackage e (packagePath options) (packageName options) =
        Some \<lparr>success = False,
              message = ''No package.json found in: '' @ packagePath options,
              error = None\<rparr>
      \<and> includes_str (''No package.json found in: '' @ packagePath options)
           ''No package.json found'')
   \<and> (\<forall>st st' content found.
        fs_stat e (packagePath options) = Inr st \<and> isDirectory st
        \<and> fs_stat e (path_join e (packagePath options) ''package.json'') = Inr st'
        \<and> isFile st'
        \<and> fs_readFile e (path_join e (packagePath options) ''package.json'') = Inr content
        \<and> json_parse e content = Inr (Manifest found) \<longrightarrow>
      (\<not> name_truthy found \<longrightarrow>
         validatePackage e (packagePath options) (packageName options) =
           Some \<lparr>success = False,
                 message = ''No package name found in package.json: ''
                   @ path_join e (packagePath options) ''package.json'',
                 error = None\<rparr>
         \<and> includes_str (''No package name found in package.json: ''
                   @ path_join e (packagePath options) ''package.json'')
              ''No package name found'')
      \<and> (\<forall>text. name_truthy found \<and> found \<noteq> NameString (packageName options)
            \<and> name_text found = Inr text \<longrightarrow>
         validatePackage e (packagePath options) (packageName options) =
           Some \<lparr>success = False,
                 message = ''Package name in package.json ('' @ text
                   @ '') does not match provided package name ('' @ packageName options
                   @ '')'',
                 error = None\<rparr>
         \<and> includes_str (''Package name in package.json ('' @ text
                   @ '') does not match provided package name ('' @ packageName options
                   @ '')'')
              ''does not match'')
      \<and> (\<forall>thrown. name_truthy found \<and> found \<noteq> NameString (packageName options)
            \<and> name_text found = Inl thrown \<longrightarrow>
         validatePackage e (packagePath options) (packageName options) =
           Some \<lparr>success = False, message = ''Failed to create link: '' @ error_text thrown,
                 error = Some (to_error thrown)\<rparr>)
      \<and> (name_truthy found \<and> found = NameString (packageName options) \<longrightarrow>
         validatePackage e (packagePath options) (packageName options) = None))
   \<and> (\<forall>result. validatePackage e (packagePath options) (packageName options) = Some result
        \<longrightarrow> \<not> success result \<and> npmLink e options = (Inr result, []))
   \<and> (validatePackage e (packagePath options) (packageName options) = None \<longrightarrow>
        take 1 (snd (npmLink e options)) =
          [(createLinkCommand (detectPackageManager e (projectPath options))
              (packagePath options), projectPath options)])"
proof (intro conjI allI impI)
  fix result
  assume "validatePackage e (packagePath options) (packageName options) = Some result"
  then show "\<not> success result" "npmLink e options = (Inr result, [])"
    by (simp_all add: validatePackage_never_succeeds npmLink_invalid)
next
  assume "validatePackage e (packagePath options) (packageName options) = None"
  then show "take 1 (snd (npmLink e options)) =
          [(createLinkCommand (detectPackageManager e (projectPath options))
              (packagePath options), projectPath options)]"
    by (rule npmLink_proceeds)
qed (rule message_substrings
    | simp add: validatePackage_def validatePackage_try_def Let_def)+

text \<open>
  The amended claim C5 at a package path that is a file, a \<open>package.json\<close> that is a
  directory, a manifest without name, a manifest named \<open>bar\<close>, a manifest whose name
  has no text and a valid package.
\<close>

theorem validatePackage_scenarios_witness:
  "fs_stat (validation_run a_regular_file (Inl enoent) (Inr (Manifest (NameString ''foo''))))
      ''/pkg'' = Inr \<lparr>isDirectory = False, isFile = True\<rparr>
   \<and> validatePackage
        (validation_run a_regular_file (Inl enoent) (Inr (Manifest (NameString ''foo''))))
        ''/pkg'' ''foo'' =
       Some \<lparr>success = False, message = ''Package directory does not exist: /pkg'',
             error = None\<rparr>
   \<and> fs_stat (validation_run a_directory a_directory (Inr (Manifest (NameString ''foo''))))
        ''/pkg/package.json'' = Inr \<lparr>isDirectory = True, isFile = False\<rparr>
   \<and> validatePackage
        (validation_run a_directory a_directory (Inr (Manifest (NameString ''foo''))))
        ''/pkg'' ''foo'' =
       Some \<lparr>success = False, message = ''No package.json found in: /pkg'', error = None\<rparr>
   \<and> json_parse (validation_run a_directory a_regular_file (Inr (Manifest NameUndefined)))
        manifest_content = Inr (Manifest NameUndefined)
   \<and> validatePackage
        (validation_run a_directory a_regular_file (Inr (Manifest NameUndefined)))
        ''/pkg'' ''foo'' =
       Some \<lparr>success = False,
             message = ''No package name found in package.json: /pkg/package.json'',
             error = None\<rparr>
   \<and> json_parse
        (validation_run a_directory a_regular_file (Inr (Manifest (NameString ''bar''))))
        manifest_content = Inr (Manifest (NameString ''bar''))
   \<and> validatePackage
        (validation_run a_directory a_regular_file (Inr (Manifest (NameString ''bar''))))
        ''/pkg'' ''foo'' =
       Some \<lparr>success = False,
             message = ''Package name in package.json (bar) does not match provided package name (foo)'',
             error = None\<rparr>
   \<and> npmLink
        (validation_run a_directory a_regular_file (Inr (Manifest (NameString ''bar''))))
        example_options =
       (Inr \<lparr>success = False,
             message = ''Package name in package.json (bar) does not match provided package name (foo)'',
             error = None\<rparr>, [])
   \<and> name_text unconvertible_name
       = Inl (JErr (Error ''Cannot convert object to primitive value''))
   \<and> validatePackage
        (validation_run a_directory a_regular_file (Inr (Manifest unconvertible_name)))
        ''/pkg'' ''foo'' =
       Some \<lparr>success = False,
             message = ''Failed to create link: Cannot convert object to primitive value'',
             error = Some (JErr (Error ''Cannot convert object to primitive value''))\<rparr>
   \<and> validatePackage
        (validation_run a_directory a_regular_file (Inr (Manifest (NameString ''foo''))))
        ''/pkg'' ''foo'' = None
   \<and> take 1 (snd (npmLink
        (validation_run a_directory a_regular_file (Inr (Manifest (NameString ''foo''))))
        example_options)) = [(''npm link /pkg'', ''/proj'')]"
proof -
  let ?file = "validation_run a_regular_file (Inl enoent) (Inr (Manifest (NameString ''foo'')))"
  let ?dir = "validation_run a_directory a_directory (Inr (Manifest (NameString ''foo'')))"
  let ?noname = "validation_run a_directory a_regular_file (Inr (Manifest NameUndefined))"
  let ?other = "validation_run a_directory a_regular_file (Inr (Manifest (NameString ''bar'')))"
  let ?valid = "validation_run a_directory a_regular_file (Inr (Manifest (NameString ''foo'')))"
  have not_dir: "validatePackage ?file ''/pkg'' ''foo'' =
       Some \<lparr>success = False, message = ''Package directory does not exist: /pkg'',
             error = None\<rparr>"
    using validatePackage_scenarios [of ?file example_options]
    by (simp add: example_options_fields validation_run_fields a_regular_file_def)
  have not_file: "validatePackage ?dir ''/pkg'' ''foo'' =
       Some \<lparr>success = False, message = ''No package.json found in: /pkg'', error = None\<rparr>"
    using validatePackage_scenarios [of ?dir example_options]
    by (simp add: example_options_fields validation_run_fields a_directory_def)
  have noname: "validatePackage ?noname ''/pkg'' ''foo'' =
       Some \<lparr>success = False,
             message = ''No package name found in package.json: /pkg/package.json'',
             error = None\<rparr>"
    using validatePackage_scenarios [of ?noname example_options]
    by (simp add: example_options_fields validation_run_fields a_directory_def
        a_regular_file_def)
  have other: "validatePackage ?other ''/pkg'' ''foo'' =
       Some \<lparr>success = False,
             message = ''Package name in package.json (bar) does not match provided package name (foo)'',
             error = None\<rparr>"
    using validatePackage_scenarios [of ?other example_options]
    by (simp add: example_options_fields validation_run_fields a_directory_def
        a_regular_file_def)
  have stopped: "npmLink ?other example_options =
       (Inr \<lparr>success = False,
             message = ''Package name in package.json (bar) does not match provided package name (foo)'',
             error = None\<rparr>, [])"
    using validatePackage_scenarios [of ?other example_options] other
    by (simp add: example_options_fields)
  have unconvertible: "validatePackage
        (validation_run a_directory a_regular_file (Inr (Manifest unconvertible_name)))
        ''/pkg'' ''foo'' =
       Some \<lparr>success = False,
             message = ''Failed to create link: Cannot convert object to primitive value'',
             error = Some (JErr (Error ''Cannot convert object to primitive value''))\<rparr>"
    using validatePackage_scenarios
      [of "validation_run a_directory a_regular_file (Inr (Manifest unconvertible_name))"
        example_options]
    by (simp add: example_options_fields validation_run_fields a_directory_def
        a_regular_file_def unconvertible_name_def)
  have valid: "validatePackage ?valid ''/pkg'' ''foo'' = None"
    using validatePackage_scenarios [of ?valid example_options]
    by (simp add: example_options_fields validation_run_fields a_directory_def
        a_regular_file_def)
  have proceeds: "take 1 (snd (npmLink ?valid example_options)) = [(''npm link /pkg'', ''/proj'')]"
    using validatePackage_scenarios [of ?valid example_options] valid
    by (simp add: example_options_fields detectPackageManager_def validation_run_def
        scenario_def detects_def createLinkCommand_def)
  from not_dir not_file noname other stopped unconvertible valid proceeds show ?thesis
    by (simp add: validation_run_fields a_regular_file_def a_directory_def
        unconvertible_name_def)
qed

end
